theory Spec2Isabelle
  imports Complex_Main "HOL-Library.Word" "HOL-Library.Sublist"
begin

section \<open>JavaScript strings\<close>

text \<open>
  A JavaScript string is a sequence of UTF-16 code units. Literals of the source are
  written \<open>js ''...''\<close>; every literal of the two source files is ASCII.
\<close>

type_synonym jsstring = "16 word list"

definition js :: "string \<Rightarrow> jsstring" where
  "js s = map of_char s"

section \<open>The run context\<close>

text \<open>
  \<open>buildContext\<close> (context.js) is a collaborator outside the two source files. The
  record holds the fields that runner.js, opencode.js and session.js read, each a
  string, as the CI environment delivers them.
\<close>

record run_context =
  projectId :: jsstring
  projectPath :: jsstring
  author :: jsstring
  branch :: jsstring
  prompt :: jsstring
  agentPrompt :: jsstring
  opencodeModel :: jsstring
  resourceId :: jsstring
  dataStorageApiUrl :: jsstring
  dataStorageApiKey :: jsstring

section \<open>session.js: the session identifier\<close>

text \<open>
  \<^verbatim>\<open>export function getSessionId(context) {
    return `${context.projectId}_${context.branch}`; }\<close>
\<close>

definition getSessionId :: "run_context \<Rightarrow> jsstring" where
  "getSessionId c = projectId c @ js ''_'' @ branch c"

section \<open>Primitives of the JavaScript string library\<close>

text \<open>
  \<open>s.split(c)\<close> for a one-character separator: the pieces between the
  occurrences of \<open>c\<close>; a string with \<open>n\<close> separators has \<open>n + 1\<close> pieces and the
  empty string has the single piece \<open>""\<close>.
\<close>

fun split_on :: "16 word \<Rightarrow> jsstring \<Rightarrow> jsstring list" where
  "split_on sep [] = [[]]"
| "split_on sep (c # cs) =
     (if c = sep then [] # split_on sep cs
      else (case split_on sep cs of [] \<Rightarrow> [[c]] | l # ls \<Rightarrow> (c # l) # ls))"

text \<open>\<open>a.join(sep)\<close> on an array of strings.\<close>

fun join :: "jsstring \<Rightarrow> jsstring list \<Rightarrow> jsstring" where
  "join sep [] = []"
| "join sep [x] = x"
| "join sep (x # y # ys) = x @ sep @ join sep (y # ys)"

text \<open>
  \<open>s.trim()\<close> removes the leading and trailing code units that ECMAScript counts as
  WhiteSpace or LineTerminator: TAB, LF, VT, FF, CR, SPACE, NBSP, U+1680,
  U+2000..U+200A, U+2028, U+2029, U+202F, U+205F, U+3000 and U+FEFF.
\<close>

definition isWhiteSpace :: "16 word \<Rightarrow> bool" where
  "isWhiteSpace c =
     ((0x9 \<le> c \<and> c \<le> 0xD) \<or> c = 0x20 \<or> c = 0xA0 \<or> c = 0x1680
      \<or> (0x2000 \<le> c \<and> c \<le> 0x200A) \<or> c = 0x2028 \<or> c = 0x2029
      \<or> c = 0x202F \<or> c = 0x205F \<or> c = 0x3000 \<or> c = 0xFEFF)"

definition trim :: "jsstring \<Rightarrow> jsstring" where
  "trim s = rev (dropWhile isWhiteSpace (rev (dropWhile isWhiteSpace s)))"

definition startsWith :: "jsstring \<Rightarrow> jsstring \<Rightarrow> bool" where
  "startsWith s p = prefix p s"

fun includes_str :: "jsstring \<Rightarrow> jsstring \<Rightarrow> bool" where
  "includes_str [] p = (p = [])"
| "includes_str (c # cs) p = (prefix p (c # cs) \<or> includes_str cs p)"

text \<open>The separators \<open>'/'\<close> and \<open>'\n'\<close>.\<close>

definition slash :: "16 word" where
  "slash = 0x2F"

definition newline :: "16 word" where
  "newline = 0x0A"

text \<open>
  Truthiness of a value that is a string or \<open>undefined\<close>/\<open>null\<close>, and its
  rendering inside a template literal.
\<close>

fun truthy :: "jsstring option \<Rightarrow> bool" where
  "truthy None = False"
| "truthy (Some s) = (s \<noteq> [])"

fun template_null :: "jsstring option \<Rightarrow> jsstring" where
  "template_null None = js ''null''"
| "template_null (Some s) = s"

fun template_undefined :: "jsstring option \<Rightarrow> jsstring" where
  "template_undefined None = js ''undefined''"
| "template_undefined (Some s) = s"

text \<open>Array destructuring \<open>[a, b] = xs\<close>: the element, or \<open>undefined\<close> past the end.\<close>

definition element :: "'a list \<Rightarrow> nat \<Rightarrow> 'a option" where
  "element xs i = (if i < length xs then Some (xs ! i) else None)"

section \<open>Observable effects\<close>

text \<open>
  Every function of the model returns the list of effects it performed, in order,
  next to its result. A thrown \<open>Error\<close> is represented by its message.
  A logger call keeps its level and its arguments; where the source formats a number
  inside a template literal the number is kept as a part of its own, so no text is
  lost: \<open>Fixed6 n\<close> stands for the string \<open>n.toFixed(6)\<close>.
\<close>

datatype level = LogInfo | LogWarn | LogError | LogSuccess | LogStart

datatype jsvalue = Str jsstring | Null | Bool bool | Number rat | Fixed6 rat

datatype http_method = GET | PUT | POST

datatype body = NoBody | Binary "8 word list" | JsonBody "(jsstring \<times> jsvalue) list"

record request =
  req_method :: http_method
  req_url :: jsstring
  req_headers :: "(jsstring \<times> jsstring) list"
  req_body :: body

datatype stdio = Piped | Inherited

datatype event =
    Log level "jsvalue list"
  | Call jsstring
  | Spawn jsstring "jsstring list" jsstring stdio
  | StdoutWrite jsstring
  | StderrWrite jsstring
  | ExecSync jsstring
  | Http request
  | PostComment jsstring
  | WriteOutput bool "(jsstring \<times> jsvalue) list"
  | FsWrite jsstring
  | FsRemove jsstring
  | FsMkdir jsstring

fun is_spawn :: "event \<Rightarrow> bool" where
  "is_spawn (Spawn cmd args inp io) = True"
| "is_spawn e = False"

text \<open>
  The requests of the remote session store (GET to download, PUT to upload) and of
  the telemetry endpoint (POST).
\<close>

fun is_request :: "http_method \<Rightarrow> event \<Rightarrow> bool" where
  "is_request m (Http r) = (req_method r = m)"
| "is_request m e = False"

section \<open>opencode.js: running the agent\<close>

text \<open>What \<open>spawnSync\<close> returns: \<open>status\<close> is \<open>null\<close> when the child was killed by a
  signal or could not be started; a stream that was not captured is \<open>null\<close>.\<close>

record spawn_result =
  status :: "int option"
  stdout :: "jsstring option"
  stderr :: "jsstring option"

record opencode_result =
  fullOutput :: jsstring
  finalResponse :: jsstring
  stderr_text :: jsstring

text \<open>
  The test of the loop body on one line of the output:
  \<^verbatim>\<open>const line = lines[i].trim();
  if (line && !line.startsWith('[') && !line.includes('Tool:') && !line.includes('>>>'))\<close>
\<close>

definition qualifies :: "jsstring \<Rightarrow> bool" where
  "qualifies l =
     (let line = trim l
      in line \<noteq> [] \<and> \<not> startsWith line (js ''['') \<and> \<not> includes_str line (js ''Tool:'')
         \<and> \<not> includes_str line (js ''>>>''))"

text \<open>
  \<^verbatim>\<open>for (let i = lines.length - 1; i >= 0 && lastNonEmptyLines.length < 50; i--)\<close>
  The second argument counts the lines not yet visited: \<open>Suc i\<close> is the state in which
  the loop variable is \<open>i\<close>, and \<open>0\<close> the state in which it is \<open>-1\<close>.
  \<open>unshift\<close> puts the line in front.
\<close>

fun collect :: "jsstring list \<Rightarrow> nat \<Rightarrow> jsstring list \<Rightarrow> jsstring list" where
  "collect lines 0 acc = acc"
| "collect lines (Suc i) acc =
     (if length acc < 50
      then collect lines i (if qualifies (lines ! i) then (lines ! i) # acc else acc)
      else acc)"

definition extractFinalResponse :: "jsstring \<Rightarrow> jsstring" where
  "extractFinalResponse out =
     (let lines = split_on newline out;
          lastNonEmptyLines = collect lines (length lines) []
      in if length lastNonEmptyLines > 0 then trim (join [newline] lastNonEmptyLines)
         else out)"

text \<open>
  \<open>runOpencode\<close>, the variant that captures both streams (\<open>stdio: ["pipe", "pipe",
  "pipe"]\<close>) and returns \<open>{fullOutput, finalResponse, stderr}\<close>. \<open>spawnSync\<close> is the
  function of node:child_process, given as a parameter.
\<close>

definition cliArgs :: "run_context \<Rightarrow> jsstring list" where
  "cliArgs c = [js ''run'', js ''--print-logs'', js ''--model'', opencodeModel c,
                js ''--log-level'', js ''ERROR'']"

definition invalid_model_message :: "run_context \<Rightarrow> jsstring" where
  "invalid_model_message c =
     js ''Invalid OPENCODE_MODEL format: '' @ opencodeModel c
       @ js ''. Expected format: provider/model''"

definition runOpencode ::
  "(jsstring \<Rightarrow> jsstring list \<Rightarrow> jsstring \<Rightarrow> spawn_result) \<Rightarrow> run_context \<Rightarrow> jsstring
     \<Rightarrow> event list \<times> (jsstring + opencode_result)" where
  "runOpencode spawnSync c p =
     (let parts = split_on slash (opencodeModel c);
          providerID = element parts 0;
          modelID = element parts 1;
          t0 = [Log LogStart [Str (js ''Running opencode via cli...'')]]
      in if \<not> truthy providerID \<or> \<not> truthy modelID
         then (t0, Inl (invalid_model_message c))
         else
           let result = spawnSync (js ''opencode'') (cliArgs c)
                          (agentPrompt c @ [newline] @ p);
               t1 = t0 @
                 [Log LogInfo [Str (js ''Using model: '' @ template_undefined modelID
                                    @ js '' from provider: '' @ template_undefined providerID)],
                  Log LogInfo [Str (js ''Sending prompt to model ... this may take a while'')],
                  Log LogInfo [Str (js ''Running: opencode '' @ join (js '' '') (cliArgs c))],
                  Spawn (js ''opencode'') (cliArgs c) (agentPrompt c @ [newline] @ p) Piped]
                 @ (if truthy (stdout result) then [StdoutWrite (the (stdout result))] else [])
                 @ (if truthy (stderr result) then [StderrWrite (the (stderr result))] else [])
           in if status result \<noteq> Some 0
              then (t1 @ [Log LogError [Str (js ''opencode CLI exited with error: ''),
                                        (case stderr result of None \<Rightarrow> Null | Some e \<Rightarrow> Str e)]],
                    Inl (js ''opencode CLI failed: '' @ template_null (stderr result)))
              else
                let out = (if truthy (stdout result) then the (stdout result) else [])
                in (t1 @ [Log LogSuccess [Str (js ''opencode CLI completed'')]],
                    Inr \<lparr>fullOutput = out,
                         finalResponse = extractFinalResponse out,
                         stderr_text = (if truthy (stderr result) then the (stderr result)
                                        else [])\<rparr>))"

text \<open>
  The second variant of \<open>runOpencode\<close> in the source spawns the child with
  \<open>stdio: ["pipe", process.stdout, process.stderr]\<close>, mirrors nothing itself and
  returns nothing. Its parameter describes the child as in the first variant: the exit
  status and what the child writes on its two streams. With this \<open>stdio\<close> the child
  writes straight to the streams of the parent, \<open>spawnSync\<close> captures nothing, and
  \<open>result.stdout\<close> and \<open>result.stderr\<close> are \<open>null\<close>.
\<close>

definition not_captured :: "spawn_result \<Rightarrow> spawn_result" where
  "not_captured r = r\<lparr>stdout := None, stderr := None\<rparr>"

definition runOpencode_inherit ::
  "(jsstring \<Rightarrow> jsstring list \<Rightarrow> jsstring \<Rightarrow> spawn_result) \<Rightarrow> run_context \<Rightarrow> jsstring
     \<Rightarrow> event list \<times> (jsstring + unit)" where
  "runOpencode_inherit spawnSync c p =
     (let parts = split_on slash (opencodeModel c);
          providerID = element parts 0;
          modelID = element parts 1;
          t0 = [Log LogStart [Str (js ''Running opencode via cli...'')]]
      in if \<not> truthy providerID \<or> \<not> truthy modelID
         then (t0, Inl (invalid_model_message c))
         else
           let result = not_captured (spawnSync (js ''opencode'') (cliArgs c)
                          (agentPrompt c @ [newline] @ p));
               t1 = t0 @
                 [Log LogInfo [Str (js ''Using model: '' @ template_undefined modelID
                                    @ js '' from provider: '' @ template_undefined providerID)],
                  Log LogInfo [Str (js ''Sending prompt to model ... this may take a while'')],
                  Log LogInfo [Str (js ''Running: opencode '' @ join (js '' '') (cliArgs c))],
                  Spawn (js ''opencode'') (cliArgs c) (agentPrompt c @ [newline] @ p) Inherited]
           in if status result \<noteq> Some 0
              then (t1 @ [Log LogError [Str (js ''opencode CLI exited with error: ''),
                                        (case stderr result of None \<Rightarrow> Null | Some e \<Rightarrow> Str e)]],
                    Inl (js ''opencode CLI failed: '' @ template_null (stderr result)))
              else (t1 @ [Log LogSuccess [Str (js ''opencode CLI completed'')]], Inr ()))"

section \<open>session.js: the session store\<close>

text \<open>
  session.js reaches the outside world through node:fs, node:os, node:path,
  node:child_process and \<open>fetch\<close>. These are parameters of the model: \<open>'w\<close> is the
  state of the world (the file system and the remote store), each operation returns
  the new state, and an operation that can throw returns the message of its error
  (\<open>Some msg\<close>, or \<open>Inl msg\<close>) or its value. \<open>existsSync\<close> never throws.
\<close>

record response =
  resp_status :: nat
  arrayBuffer :: "jsstring + 8 word list"
  text_body :: "jsstring + jsstring"
  json_upserted :: "jsstring + jsvalue"

text \<open>\<open>response.ok\<close>: the status is in the range 200 to 299.\<close>

definition ok :: "response \<Rightarrow> bool" where
  "ok r = (200 \<le> resp_status r \<and> resp_status r \<le> 299)"

record 'w os =
  homedir :: jsstring
  pathJoin :: "jsstring \<Rightarrow> jsstring \<Rightarrow> jsstring"
  existsSync :: "jsstring \<Rightarrow> 'w \<Rightarrow> bool"
  mkdirSync :: "jsstring \<Rightarrow> 'w \<Rightarrow> jsstring option \<times> 'w"
  rmSync :: "jsstring \<Rightarrow> 'w \<Rightarrow> jsstring option \<times> 'w"
  writeFileSync :: "jsstring \<Rightarrow> 8 word list \<Rightarrow> 'w \<Rightarrow> jsstring option \<times> 'w"
  readFileSync :: "jsstring \<Rightarrow> 'w \<Rightarrow> jsstring + 8 word list"
  execSync :: "jsstring \<Rightarrow> 'w \<Rightarrow> (jsstring + jsstring) \<times> 'w"
  encodeURIComponent :: "jsstring \<Rightarrow> jsstring + jsstring"
  fetch :: "request \<Rightarrow> 'w \<Rightarrow> (jsstring + response) \<times> 'w"

text \<open>
  \<^verbatim>\<open>const OPENCODE_DIR = join(homedir(), ".local/share/opencode");
  const SESSION_ZIP_PATH = "/tmp/opencode-session.zip";\<close>
\<close>

definition OPENCODE_DIR :: "'w os \<Rightarrow> jsstring" where
  "OPENCODE_DIR os = pathJoin os (homedir os) (js ''.local/share/opencode'')"

definition SESSION_ZIP_PATH :: jsstring where
  "SESSION_ZIP_PATH = js ''/tmp/opencode-session.zip''"

text \<open>The double quote, for the shell commands.\<close>

definition dq :: jsstring where
  "dq = [0x22]"

text \<open>
  \<open>zipSession\<close>: \<open>null\<close> when there is no opencode directory or when anything throws;
  otherwise the stale archive is removed, the directory is zipped and the path of the
  archive is returned.
\<close>

definition zip_command :: "'w os \<Rightarrow> jsstring" where
  "zip_command os =
     js ''cd '' @ dq @ OPENCODE_DIR os @ dq @ js '' && zip -r '' @ dq @ SESSION_ZIP_PATH @ dq
       @ js '' . -q''"

definition zipSession :: "'w os \<Rightarrow> 'w \<Rightarrow> jsstring option \<times> 'w \<times> event list" where
  "zipSession os w =
     (if \<not> existsSync os (OPENCODE_DIR os) w
      then (None, w,
            [Log LogWarn [Str (js ''Opencode directory does not exist, nothing to zip'')]])
      else
        let t0 = [Log LogInfo [Str (js ''Zipping opencode session...'')]];
            (rm, w1, t1) =
              (if existsSync os SESSION_ZIP_PATH w
               then (fst (rmSync os SESSION_ZIP_PATH w), snd (rmSync os SESSION_ZIP_PATH w),
                     [FsRemove SESSION_ZIP_PATH])
               else (None, w, []))
        in case rm of
             Some msg \<Rightarrow>
               (None, w1, t0 @ t1 @ [Log LogError [Str (js ''Failed to zip session: '' @ msg)]])
           | None \<Rightarrow>
               (case execSync os (zip_command os) w1 of
                  (Inl msg, w2) \<Rightarrow>
                    (None, w2, t0 @ t1 @ [ExecSync (zip_command os),
                       Log LogError [Str (js ''Failed to zip session: '' @ msg)]])
                | (Inr out, w2) \<Rightarrow>
                    (Some SESSION_ZIP_PATH, w2, t0 @ t1 @ [ExecSync (zip_command os),
                       Log LogSuccess [Str (js ''Session zipped to '' @ SESSION_ZIP_PATH)]])))"

text \<open>
  \<open>getLatestSessionId\<close>: \<open>null\<close> when the message directory is missing, when the
  listing throws, or when its trimmed output is empty (\<open>result || null\<close>).
\<close>

definition messagesDir :: "'w os \<Rightarrow> jsstring" where
  "messagesDir os = pathJoin os (OPENCODE_DIR os) (js ''storage/message'')"

definition latest_command :: "'w os \<Rightarrow> jsstring" where
  "latest_command os =
     js ''ls -td '' @ dq @ messagesDir os @ dq
       @ js ''/ses_* 2>/dev/null | head -n 1 | xargs basename 2>/dev/null || echo '' @ dq @ dq"

definition getLatestSessionId :: "'w os \<Rightarrow> 'w \<Rightarrow> jsstring option \<times> 'w \<times> event list" where
  "getLatestSessionId os w =
     (if \<not> existsSync os (messagesDir os) w then (None, w, [])
      else
        (case execSync os (latest_command os) w of
           (Inl msg, w1) \<Rightarrow>
             (None, w1, [ExecSync (latest_command os),
                Log LogWarn [Str (js ''Could not find latest session ID: '' @ msg)]])
         | (Inr out, w1) \<Rightarrow>
             ((if trim out \<noteq> [] then Some (trim out) else None), w1,
              [ExecSync (latest_command os)])))"

text \<open>
  \<open>unzipSession\<close>: \<open>null\<close> with a warning when the archive does not exist, \<open>null\<close>
  with an error log when creating the directory or extracting throws; otherwise what
  \<open>getLatestSessionId\<close> returns after the extraction.
\<close>

definition unzip_command :: "'w os \<Rightarrow> jsstring \<Rightarrow> jsstring" where
  "unzip_command os zipPath =
     js ''unzip -q -o '' @ dq @ zipPath @ dq @ js '' -d '' @ dq @ OPENCODE_DIR os @ dq"

definition unzipSession ::
  "'w os \<Rightarrow> jsstring \<Rightarrow> 'w \<Rightarrow> jsstring option \<times> 'w \<times> event list" where
  "unzipSession os zipPath w =
     (if \<not> existsSync os zipPath w
      then (None, w, [Log LogWarn [Str (js ''Session zip not found at '' @ zipPath)]])
      else
        let t0 = [Log LogInfo [Str (js ''Restoring opencode session...'')]];
            (mk, w1, t1) =
              (if \<not> existsSync os (OPENCODE_DIR os) w
               then (fst (mkdirSync os (OPENCODE_DIR os) w), snd (mkdirSync os (OPENCODE_DIR os) w),
                     [FsMkdir (OPENCODE_DIR os)])
               else (None, w, []))
        in case mk of
             Some msg \<Rightarrow>
               (None, w1, t0 @ t1 @ [Log LogError [Str (js ''Failed to unzip session: '' @ msg)]])
           | None \<Rightarrow>
               (case execSync os (unzip_command os zipPath) w1 of
                  (Inl msg, w2) \<Rightarrow>
                    (None, w2, t0 @ t1 @ [ExecSync (unzip_command os zipPath),
                       Log LogError [Str (js ''Failed to unzip session: '' @ msg)]])
                | (Inr out, w2) \<Rightarrow>
                    (case getLatestSessionId os w2 of
                       (sessionId, w3, t3) \<Rightarrow>
                         (sessionId, w3,
                          t0 @ t1 @ [ExecSync (unzip_command os zipPath),
                             Log LogSuccess [Str (js ''Session restored successfully'')]] @ t3
                           @ (case sessionId of
                                None \<Rightarrow> []
                              | Some sid \<Rightarrow>
                                  [Log LogInfo [Str (js ''Found previous session: '' @ sid)]])))))"

text \<open>
  What \<open>downloadSession\<close> can return: a string, \<open>null\<close> or \<open>false\<close>.
\<close>

datatype download_result = ReturnedString jsstring | ReturnedNull | ReturnedFalse

fun of_session_id :: "jsstring option \<Rightarrow> download_result" where
  "of_session_id None = ReturnedNull"
| "of_session_id (Some sid) = ReturnedString sid"

definition session_request :: "'w os \<Rightarrow> run_context \<Rightarrow> http_method \<Rightarrow> jsstring \<Rightarrow> body \<Rightarrow> request" where
  "session_request os c m enc b =
     \<lparr>req_method = m,
      req_url = dataStorageApiUrl c @ js ''/session?sessionId='' @ enc,
      req_headers =
        (if m = PUT
         then [(js ''x-api-key'', dataStorageApiKey c), (js ''Content-Type'', js ''application/zip'')]
         else [(js ''x-api-key'', dataStorageApiKey c)]),
      req_body = b\<rparr>"

definition downloadSession ::
  "'w os \<Rightarrow> run_context \<Rightarrow> 'w \<Rightarrow> download_result \<times> 'w \<times> event list" where
  "downloadSession os c w =
     (let sessionId = getSessionId c
      in case encodeURIComponent os sessionId of
           Inl msg \<Rightarrow>
             (ReturnedFalse, w, [Log LogWarn [Str (js ''Could not download session: '' @ msg)]])
         | Inr enc \<Rightarrow>
             let req = session_request os c GET enc NoBody;
                 t0 = [Log LogInfo [Str (js ''Downloading session from API: '' @ sessionId)],
                       Http req]
             in case fetch os req w of
                  (Inl msg, w1) \<Rightarrow>
                    (ReturnedFalse, w1,
                     t0 @ [Log LogWarn [Str (js ''Could not download session: '' @ msg)]])
                | (Inr resp, w1) \<Rightarrow>
                    if resp_status resp = 404
                    then (ReturnedFalse, w1,
                          t0 @ [Log LogInfo [Str (js ''No previous session found, starting fresh'')]])
                    else if \<not> ok resp
                    then (ReturnedFalse, w1,
                          t0 @ [Log LogWarn [Str (js ''Failed to download session: ''),
                                             Number (of_nat (resp_status resp))]])
                    else
                      (case arrayBuffer resp of
                         Inl msg \<Rightarrow>
                           (ReturnedFalse, w1,
                            t0 @ [Log LogWarn [Str (js ''Could not download session: '' @ msg)]])
                       | Inr buffer \<Rightarrow>
                           (case writeFileSync os SESSION_ZIP_PATH buffer w1 of
                              (Some msg, w2) \<Rightarrow>
                                (ReturnedFalse, w2,
                                 t0 @ [FsWrite SESSION_ZIP_PATH,
                                       Log LogWarn [Str (js ''Could not download session: '' @ msg)]])
                            | (None, w2) \<Rightarrow>
                                (case unzipSession os SESSION_ZIP_PATH w2 of
                                   (sid, w3, t3) \<Rightarrow>
                                     (of_session_id sid, w3,
                                      t0 @ [FsWrite SESSION_ZIP_PATH,
                                            Log LogSuccess [Str (js ''Session downloaded from API'')]]
                                         @ t3)))))"

definition uploadSession :: "'w os \<Rightarrow> run_context \<Rightarrow> 'w \<Rightarrow> bool \<times> 'w \<times> event list" where
  "uploadSession os c w =
     (let sessionId = getSessionId c
      in case zipSession os w of
           (None, w1, t1) \<Rightarrow> (False, w1, t1 @ [Log LogWarn [Str (js ''No session to upload'')]])
         | (Some zipPath, w1, t1) \<Rightarrow>
             let t2 = t1 @ [Log LogInfo [Str (js ''Uploading session to API: '' @ sessionId)]]
             in case readFileSync os zipPath w1 of
                  Inl msg \<Rightarrow>
                    (False, w1, t2 @ [Log LogError [Str (js ''Failed to upload session: '' @ msg)]])
                | Inr fileBuffer \<Rightarrow>
                    (case encodeURIComponent os sessionId of
                       Inl msg \<Rightarrow>
                         (False, w1,
                          t2 @ [Log LogError [Str (js ''Failed to upload session: '' @ msg)]])
                     | Inr enc \<Rightarrow>
                         let req = session_request os c PUT enc (Binary fileBuffer)
                         in case fetch os req w1 of
                              (Inl msg, w2) \<Rightarrow>
                                (False, w2,
                                 t2 @ [Http req,
                                       Log LogError [Str (js ''Failed to upload session: '' @ msg)]])
                            | (Inr resp, w2) \<Rightarrow>
                                if \<not> ok resp
                                then (case text_body resp of
                                        Inl msg \<Rightarrow>
                                          (False, w2,
                                           t2 @ [Http req,
                                                 Log LogError
                                                   [Str (js ''Failed to upload session: '' @ msg)]])
                                      | Inr errorText \<Rightarrow>
                                          (False, w2,
                                           t2 @ [Http req,
                                                 Log LogWarn
                                                   [Str (js ''Failed to upload session: ''),
                                                    Number (of_nat (resp_status resp)),
                                                    Str (js '' - '' @ errorText)]]))
                                else (True, w2,
                                      t2 @ [Http req,
                                            Log LogSuccess [Str (js ''Session uploaded to API'')]])))"

definition cleanupSessionZip :: "'w os \<Rightarrow> 'w \<Rightarrow> 'w \<times> event list" where
  "cleanupSessionZip os w =
     (if existsSync os SESSION_ZIP_PATH w
      then (case rmSync os SESSION_ZIP_PATH w of
              (None, w1) \<Rightarrow> (w1, [FsRemove SESSION_ZIP_PATH])
            | (Some msg, w1) \<Rightarrow>
                (w1, [FsRemove SESSION_ZIP_PATH,
                      Log LogWarn [Str (js ''Failed to cleanup session zip: '' @ msg)]]))
      else (w, []))"

section \<open>runner.js: the cost of the latest session\<close>

text \<open>
  \<open>run\<close> computes the cost with two shell pipelines:
  \<^verbatim>\<open>ls -td $HOME/.local/share/opencode/storage/message/ses_* | head -n 1 | xargs basename
  jq -s 'map(.cost) | add' $HOME/.local/share/opencode/storage/message/<id>/*.json\<close>
  and \<open>parseFloat(...) || 0\<close> on the output of the second. The programs are not part
  of the repository; the jq filter is modelled on JSON values as the jq manual defines
  it. The numbers of jq are IEEE doubles, and their arithmetic is not modelled: \<open>'n\<close>
  is the type of the numbers as jq holds them, and the addition of jq on them is a
  parameter \<open>add\<close> about which nothing is assumed. A file holds one JSON text or is not
  JSON.
\<close>

datatype 'n json =
    JNull | JBool bool | JNum 'n | JStr jsstring | JArr "'n json list"
  | JObj "(jsstring \<times> 'n json) list"

datatype 'n json_file = NotJson | JsonText "'n json"

text \<open>\<open>-s\<close> reads every file into one array; a file that is not JSON makes jq fail.\<close>

fun slurp :: "'n json_file list \<Rightarrow> 'n json list option" where
  "slurp [] = Some []"
| "slurp (NotJson # fs) = None"
| "slurp (JsonText v # fs) = (case slurp fs of None \<Rightarrow> None | Some vs \<Rightarrow> Some (v # vs))"

text \<open>\<open>.cost\<close>: the field of an object, \<open>null\<close> when it is missing, \<open>null\<close> on \<open>null\<close>,
  an error on every other value.\<close>

fun cost_field :: "'n json \<Rightarrow> 'n json option" where
  "cost_field (JObj kv) = Some (case map_of kv (js ''cost'') of None \<Rightarrow> JNull | Some v \<Rightarrow> v)"
| "cost_field JNull = Some JNull"
| "cost_field v = None"

fun map_cost :: "'n json list \<Rightarrow> 'n json list option" where
  "map_cost [] = Some []"
| "map_cost (v # vs) =
     (case cost_field v of
        None \<Rightarrow> None
      | Some c \<Rightarrow> (case map_cost vs of None \<Rightarrow> None | Some cs \<Rightarrow> Some (c # cs)))"

text \<open>jq's \<open>+\<close>: \<open>null\<close> is neutral, numbers are added by \<open>add\<close>, strings and arrays
  concatenate, objects merge with the right one winning; any other pair is an error.\<close>

fun jq_plus :: "('n \<Rightarrow> 'n \<Rightarrow> 'n) \<Rightarrow> 'n json \<Rightarrow> 'n json \<Rightarrow> 'n json option" where
  "jq_plus add JNull b = Some b"
| "jq_plus add a JNull = Some a"
| "jq_plus add (JNum a) (JNum b) = Some (JNum (add a b))"
| "jq_plus add (JStr a) (JStr b) = Some (JStr (a @ b))"
| "jq_plus add (JArr a) (JArr b) = Some (JArr (a @ b))"
| "jq_plus add (JObj a) (JObj b) = Some (JObj (b @ a))"
| "jq_plus add a b = None"

text \<open>\<open>add\<close> (the jq filter) is \<open>reduce .[] as $x (null; . + $x)\<close>.\<close>

fun jq_reduce :: "('n \<Rightarrow> 'n \<Rightarrow> 'n) \<Rightarrow> 'n json \<Rightarrow> 'n json list \<Rightarrow> 'n json option" where
  "jq_reduce add acc [] = Some acc"
| "jq_reduce add acc (x # xs) =
     (case jq_plus add acc x of None \<Rightarrow> None | Some a \<Rightarrow> jq_reduce add a xs)"

text \<open>
  The second pipeline on the files that the glob matches, in order: \<open>None\<close> when jq
  exits with an error (then \<open>execSync\<close> throws). When no file matches, the shell hands
  the pattern itself to jq, which cannot open it.
\<close>

definition jq_cost_total :: "('n \<Rightarrow> 'n \<Rightarrow> 'n) \<Rightarrow> 'n json_file list \<Rightarrow> 'n json option" where
  "jq_cost_total add files =
     (if files = [] then None
      else case slurp files of
             None \<Rightarrow> None
           | Some vs \<Rightarrow>
               (case map_cost vs of None \<Rightarrow> None | Some cs \<Rightarrow> jq_reduce add JNull cs))"

text \<open>
  \<open>parseFloat\<close> of what jq prints. For a number it is \<open>read n\<close>, the JavaScript number
  that \<open>parseFloat\<close> reads from the text jq prints for \<open>n\<close> (\<open>None\<close> is \<open>NaN\<close>; a
  JavaScript number is given by its value). This too is a parameter. For \<open>null\<close>, a
  boolean, a quoted string, an array or an object it is \<open>NaN\<close>.
\<close>

fun parseFloat_printed :: "('n \<Rightarrow> rat option) \<Rightarrow> 'n json \<Rightarrow> rat option" where
  "parseFloat_printed read (JNum n) = read n"
| "parseFloat_printed read v = None"

text \<open>\<open>x || 0\<close> on a number: \<open>NaN\<close> and \<open>0\<close> are falsy.\<close>

fun or_zero :: "rat option \<Rightarrow> rat" where
  "or_zero None = 0"
| "or_zero (Some n) = (if n = 0 then 0 else n)"

definition sq :: jsstring where
  "sq = [0x27]"

definition storage_path :: "jsstring option \<Rightarrow> jsstring" where
  "storage_path homeDir = template_undefined homeDir @ js ''/.local/share/opencode/storage/message/''"

definition sessionIdCmd :: "jsstring option \<Rightarrow> jsstring" where
  "sessionIdCmd homeDir =
     js ''ls -td '' @ storage_path homeDir @ js ''ses_* | head -n 1 | xargs basename''"

definition costCmd :: "jsstring option \<Rightarrow> jsstring \<Rightarrow> jsstring" where
  "costCmd homeDir sessionId =
     js ''jq -s '' @ sq @ js ''map(.cost) | add'' @ sq @ js '' '' @ storage_path homeDir
       @ sessionId @ js ''/*.json''"

section \<open>runner.js: the orchestrator\<close>

text \<open>
  The collaborators of \<open>run\<close> are outside the source files: the context builder, the
  config and provider-key validators, the git helpers, the comment poster and the
  output writer. The environment gives what each of them does in this run: for a
  function that returns nothing, \<open>Some msg\<close> when it throws an \<open>Error\<close> with that
  message and \<open>None\<close> when it returns; the two predicates \<open>isInsideGitRepo\<close> and
  \<open>validateProviderKeys\<close> return a boolean. It also gives the clock, the environment
  variables, the child process, the outcome of the first pipeline, the files of each
  session directory, the addition of jq and the reading of the numbers it prints, and
  the answer of the telemetry endpoint. Logger calls do not
  throw. Lines 14 to 16, 29, 37 and 39 of runner.js read \<^verbatim>\<open>logger.info`...`);\<close>
  and are taken as the calls \<^verbatim>\<open>logger.info(`...`);\<close> that line 54 shows.
\<close>

record 'n run_env =
  buildContext :: "jsstring + run_context"
  validateConfig :: "jsstring option"
  gitSetup :: "jsstring option"
  isInsideGitRepo :: bool
  setupLocalRepository :: "jsstring option"
  ensureBranch :: "jsstring option"
  validateProviderKeys :: bool
  env_spawnSync :: "jsstring \<Rightarrow> jsstring list \<Rightarrow> jsstring \<Rightarrow> spawn_result"
  cwd_before :: jsstring
  cwd_after :: jsstring
  startTime :: int
  endTime :: int
  env_HOME :: "jsstring option"
  env_USERPROFILE :: "jsstring option"
  latest_session_listing :: "jsstring + jsstring"
  session_records :: "jsstring \<Rightarrow> 'n json_file list"
  jq_number_add :: "'n \<Rightarrow> 'n \<Rightarrow> 'n"
  parseFloat_number :: "'n \<Rightarrow> rat option"
  jq_error :: jsstring
  telemetry :: "jsstring + response"
  postComment :: "jsstring option"
  writeOutput :: "bool \<Rightarrow> jsstring option"

text \<open>How \<open>run\<close> ends: \<open>process.exit(code)\<close>, or the promise rejects because the error
  handler itself threw.\<close>

datatype outcome = Exited int | Rejected jsstring

text \<open>Sequencing inside a \<open>try\<close> block: the first throw ends the block.\<close>

definition step ::
  "event list \<times> (jsstring + 'a) \<Rightarrow> ('a \<Rightarrow> event list \<times> (jsstring + 'b))
     \<Rightarrow> event list \<times> (jsstring + 'b)" where
  "step m f =
     (case m of
        (t, Inl e) \<Rightarrow> (t, Inl e)
      | (t, Inr x) \<Rightarrow> (t @ fst (f x), snd (f x)))"

definition call :: "jsstring \<Rightarrow> jsstring option \<Rightarrow> event list \<times> (jsstring + unit)" where
  "call name thrown = ([Call name], (case thrown of Some msg \<Rightarrow> Inl msg | None \<Rightarrow> Inr ()))"

definition emit :: "event list \<Rightarrow> event list \<times> (jsstring + unit)" where
  "emit t = (t, Inr ())"

text \<open>\<open>a || b\<close> on strings.\<close>

definition or_else :: "jsstring \<Rightarrow> jsstring \<Rightarrow> jsstring" where
  "or_else a b = (if a \<noteq> [] then a else b)"

definition cost_of_files ::
  "('n \<Rightarrow> 'n \<Rightarrow> 'n) \<Rightarrow> ('n \<Rightarrow> rat option) \<Rightarrow> 'n json_file list \<Rightarrow> rat" where
  "cost_of_files add read files =
     (case jq_cost_total add files of
        None \<Rightarrow> 0
      | Some v \<Rightarrow> or_zero (parseFloat_printed read v))"

text \<open>
  Lines 45 to 58 of \<open>run\<close>: \<open>totalCost\<close> starts at 0 and the whole computation is inside
  one \<open>try\<close>, whose \<open>catch\<close> only logs a warning.
\<close>

definition sessionCost :: "'n run_env \<Rightarrow> int \<Rightarrow> rat \<times> event list" where
  "sessionCost env aiTimeSeconds =
     (let homeDir = (if truthy (env_HOME env) then env_HOME env else env_USERPROFILE env)
      in case latest_session_listing env of
           Inl msg \<Rightarrow>
             (0, [ExecSync (sessionIdCmd homeDir),
                  Log LogWarn [Str (js ''Could not calculate session cost:''), Str msg]])
         | Inr out \<Rightarrow>
             let sessionId = trim out
             in case jq_cost_total (jq_number_add env) (session_records env sessionId) of
                  None \<Rightarrow>
                    (0, [ExecSync (sessionIdCmd homeDir), ExecSync (costCmd homeDir sessionId),
                         Log LogWarn [Str (js ''Could not calculate session cost:''),
                                      Str (jq_error env)]])
                | Some v \<Rightarrow>
                    (or_zero (parseFloat_printed (parseFloat_number env) v),
                     [ExecSync (sessionIdCmd homeDir), ExecSync (costCmd homeDir sessionId),
                      Log LogInfo [Str (js ''Total cost for session: $''),
                                   Fixed6 (or_zero (parseFloat_printed (parseFloat_number env) v))],
                      Log LogInfo [Str (js ''AI execution time: ''), Number (of_int aiTimeSeconds),
                                   Str (js ''s'')]]))"

fun truthy_value :: "jsvalue \<Rightarrow> bool" where
  "truthy_value (Str s) = (s \<noteq> [])"
| "truthy_value Null = False"
| "truthy_value (Bool b) = b"
| "truthy_value (Number n) = (n \<noteq> 0)"
| "truthy_value (Fixed6 n) = True"

definition telemetry_request :: "run_context \<Rightarrow> rat \<Rightarrow> int \<Rightarrow> request" where
  "telemetry_request c costUsd aiTimeSeconds =
     \<lparr>req_method = POST,
      req_url = js ''https://rfzqphgaqqktfnglfmya.supabase.co/functions/v1/issues'',
      req_headers = [(js ''Content-Type'', js ''application/json'')],
      req_body = JsonBody
        [(js ''gitlab_id'', Str (resourceId c)),
         (js ''title'', Str (or_else (take 100 (prompt c)) (js ''AI Task''))),
         (js ''description'', Null),
         (js ''status'', Str (js ''ai_solved'')),
         (js ''ai_attempted'', Bool True),
         (js ''ai_solved'', Bool False),
         (js ''tokens_used'', Number 0),
         (js ''cost_usd'', Number costUsd),
         (js ''ai_time_seconds'', Number (of_int aiTimeSeconds)),
         (js ''dev_time_seconds'', Number 0)]\<rparr>"

text \<open>\<open>reportToSupabase\<close> catches everything it throws.\<close>

definition reportToSupabase :: "'n run_env \<Rightarrow> run_context \<Rightarrow> rat \<Rightarrow> int \<Rightarrow> event list" where
  "reportToSupabase env c costUsd aiTimeSeconds =
     Http (telemetry_request c costUsd aiTimeSeconds) #
     (case telemetry env of
        Inl msg \<Rightarrow> [Log LogWarn [Str (js ''Could not report to Supabase:''), Str msg]]
      | Inr resp \<Rightarrow>
          if \<not> ok resp
          then (case text_body resp of
                  Inl msg \<Rightarrow> [Log LogWarn [Str (js ''Could not report to Supabase:''), Str msg]]
                | Inr errorText \<Rightarrow>
                    [Log LogWarn [Str (js ''Failed to report to Supabase: ''),
                                  Number (of_nat (resp_status resp)),
                                  Str (js '' - '' @ errorText)]])
          else (case json_upserted resp of
                  Inl msg \<Rightarrow> [Log LogWarn [Str (js ''Could not report to Supabase:''), Str msg]]
                | Inr v \<Rightarrow>
                    [Log LogSuccess [Str (js ''Reported to Supabase: ''),
                                     (if truthy_value v then v else Str (js ''success''))]]))"

definition error_comment :: "jsstring \<Rightarrow> jsstring" where
  "error_comment msg =
     [0x274C] @ js '' AI encountered an error:'' @ [newline, newline]
       @ [0x60, 0x60, 0x60] @ [newline] @ msg @ [newline] @ [0x60, 0x60, 0x60]
       @ [newline, newline] @ js ''Please check the pipeline logs for details.''"

definition handleError :: "'n run_env \<Rightarrow> jsstring \<Rightarrow> event list \<times> outcome" where
  "handleError env msg =
     (case postComment env of
        Some m \<Rightarrow> ([Log LogError [Str msg], PostComment (error_comment msg)], Rejected m)
      | None \<Rightarrow>
          (case writeOutput env False of
             Some m \<Rightarrow>
               ([Log LogError [Str msg], PostComment (error_comment msg),
                 WriteOutput False [(js ''error'', Str msg)]], Rejected m)
           | None \<Rightarrow>
               ([Log LogError [Str msg], PostComment (error_comment msg),
                 WriteOutput False [(js ''error'', Str msg)]], Exited 1)))"

definition no_provider_key_warning :: jsstring where
  "no_provider_key_warning =
     js ''No provider API key detected in env. opencode may fail to start unless credentials are pre-configured via ''
       @ sq @ js ''opencode auth login'' @ sq @ js ''.''"

text \<open>\<open>Math.round((Date.now() - startTime) / 1000)\<close> on integer milliseconds.\<close>

definition aiTime :: "'n run_env \<Rightarrow> int" where
  "aiTime env = (endTime env - startTime env + 500) div 1000"

text \<open>The \<open>try\<close> block of \<open>run\<close>, up to \<open>process.exit(0)\<close>.\<close>

definition try_block :: "'n run_env \<Rightarrow> run_context \<Rightarrow> event list \<times> (jsstring + unit)" where
  "try_block env c =
     step (call (js ''validateConfig'') (validateConfig env)) (\<lambda>_.
     step (call (js ''gitSetup'') (gitSetup env)) (\<lambda>_.
     step (emit [Call (js ''isInsideGitRepo'')]) (\<lambda>_.
     step (if \<not> isInsideGitRepo env
           then call (js ''setupLocalRepository'') (setupLocalRepository env)
           else call (js ''ensureBranch'') (ensureBranch env)) (\<lambda>_.
     step (emit [Log LogInfo [Str (js ''Prompt: '' @ prompt c)],
                 Call (js ''validateProviderKeys'')]) (\<lambda>_.
     step (emit (if \<not> validateProviderKeys env
                 then [Log LogWarn [Str no_provider_key_warning]] else [])) (\<lambda>_.
     step (emit [Log LogInfo [Str (js ''Working directory: '' @ cwd_before env)]]) (\<lambda>_.
     step (runOpencode (env_spawnSync env) c (prompt c)) (\<lambda>_.
     step (emit [Log LogInfo [Str (js ''Working directory after opencode: '' @ cwd_after env)]])
       (\<lambda>_.
     step (emit (snd (sessionCost env (aiTime env)))) (\<lambda>_.
     step (emit (reportToSupabase env c (fst (sessionCost env (aiTime env))) (aiTime env))) (\<lambda>_.
     ([WriteOutput True
         [(js ''prompt'', Str (prompt c)), (js ''branch'', Str (branch c)),
          (js ''cost'', Number (fst (sessionCost env (aiTime env)))),
          (js ''aiTime'', Number (of_int (aiTime env)))]],
      (case writeOutput env True of Some m \<Rightarrow> Inl m | None \<Rightarrow> Inr ())))))))))))))"

definition run :: "'n run_env \<Rightarrow> event list \<times> outcome" where
  "run env =
     (case buildContext env of
        Inl msg \<Rightarrow>
          ([Log LogInfo [Str (js ''AI GitLab Runner Started'')], Call (js ''buildContext'')],
           Rejected msg)
      | Inr c \<Rightarrow>
          let t0 = [Log LogInfo [Str (js ''AI GitLab Runner Started'')], Call (js ''buildContext''),
                    Log LogInfo [Str (js ''Project: '' @ or_else (projectPath c) (js ''(unknown)''))],
                    Log LogInfo [Str (js ''Triggered by: @'' @ or_else (author c) (js ''unknown''))],
                    Log LogInfo [Str (js ''Branch: '' @ branch c)]]
          in case try_block env c of
               (t, Inr u) \<Rightarrow> (t0 @ t, Exited 0)
             | (t, Inl msg) \<Rightarrow> (t0 @ t @ fst (handleError env msg), snd (handleError env msg)))"

section \<open>Reading a trace\<close>

text \<open>
  \<open>in_order ps t\<close>: the trace \<open>t\<close> holds events that satisfy the predicates \<open>ps\<close>, one
  after the other in this order (other events may lie between them).
\<close>

fun in_order :: "(event \<Rightarrow> bool) list \<Rightarrow> event list \<Rightarrow> bool" where
  "in_order [] t = True"
| "in_order (p # ps) [] = False"
| "in_order (p # ps) (e # t) = (if p e then in_order ps t else in_order (p # ps) t)"

fun is_output :: "bool \<Rightarrow> event \<Rightarrow> bool" where
  "is_output b (WriteOutput success flds) = (success = b)"
| "is_output b e = False"

text \<open>An output record with an \<open>error\<close> field.\<close>

fun is_error_record :: "event \<Rightarrow> bool" where
  "is_error_record (WriteOutput success flds) = (map_of flds (js ''error'') \<noteq> None)"
| "is_error_record e = False"

text \<open>The costs that jq adds without an error, \<open>null\<close> and numbers, and the numbers
  among a list of costs.\<close>

fun null_or_num :: "'n json \<Rightarrow> bool" where
  "null_or_num JNull = True"
| "null_or_num (JNum n) = True"
| "null_or_num v = False"

fun numbers :: "'n json list \<Rightarrow> 'n list" where
  "numbers [] = []"
| "numbers (JNum n # vs) = n # numbers vs"
| "numbers (v # vs) = numbers vs"

section \<open>The words of the specification, for comparison\<close>

text \<open>
  The last at most 50 qualifying lines of a list of lines, in their original order.
\<close>

definition last_qualifying :: "jsstring list \<Rightarrow> jsstring list" where
  "last_qualifying ls = (let q = filter qualifies ls in drop (length q - 50) q)"

text \<open>
  A model specifier that splits into exactly two non-empty components on \<open>'/'\<close>.
\<close>

definition two_nonempty_components :: "jsstring \<Rightarrow> bool" where
  "two_nonempty_components m =
     (case split_on slash m of [p, q] \<Rightarrow> p \<noteq> [] \<and> q \<noteq> [] | _ \<Rightarrow> False)"

text \<open>
  How a use of the session store shows in a trace: \<open>downloadSession\<close> always begins
  with the log line \<open>Downloading session from API: ...\<close> (or, when the request cannot
  even be built, with \<open>Could not download session: ...\<close>), \<open>uploadSession\<close> always
  begins with \<open>zipSession\<close>, whose first effect is one of two log lines; the transfers
  themselves are the GET and the PUT request.
\<close>

fun begins_download :: "event \<Rightarrow> bool" where
  "begins_download (Log LogInfo [Str s]) = prefix (js ''Downloading session from API: '') s"
| "begins_download (Log LogWarn [Str s]) = prefix (js ''Could not download session: '') s"
| "begins_download e = False"

fun begins_upload :: "event \<Rightarrow> bool" where
  "begins_upload (Log LogWarn [Str s]) =
     (s = js ''Opencode directory does not exist, nothing to zip'')"
| "begins_upload (Log LogInfo [Str s]) = (s = js ''Zipping opencode session...'')"
| "begins_upload e = False"

definition session_store_event :: "event \<Rightarrow> bool" where
  "session_store_event e =
     (is_request GET e \<or> is_request PUT e \<or> begins_download e \<or> begins_upload e)"

text \<open>
  The first error among the fatal steps of \<open>run\<close> up to and including the invocation of
  the agent: config validation, git setup, repository or branch setup, \<open>runOpencode\<close>.
\<close>

definition fatal_error :: "'n run_env \<Rightarrow> run_context \<Rightarrow> jsstring option" where
  "fatal_error env c =
     (case validateConfig env of
        Some m \<Rightarrow> Some m
      | None \<Rightarrow>
          (case gitSetup env of
             Some m \<Rightarrow> Some m
           | None \<Rightarrow>
               (case (if isInsideGitRepo env then ensureBranch env
                      else setupLocalRepository env) of
                  Some m \<Rightarrow> Some m
                | None \<Rightarrow>
                    (case snd (runOpencode (env_spawnSync env) c (prompt c)) of
                       Inl m \<Rightarrow> Some m
                     | Inr r \<Rightarrow> None))))"

definition is_provider_key_warning :: "event \<Rightarrow> bool" where
  "is_provider_key_warning e = (e = Log LogWarn [Str no_provider_key_warning])"

section \<open>Concrete inputs\<close>

definition example_context :: run_context where
  "example_context =
     \<lparr>projectId = js ''42'', projectPath = js ''group/project'', author = js ''dev'',
      branch = js ''main'', prompt = js ''fix the bug'', agentPrompt = js ''be careful'',
      opencodeModel = js ''anthropic/claude'', resourceId = js ''7'',
      dataStorageApiUrl = js ''https://store.example'', dataStorageApiKey = js ''k''\<rparr>"

text \<open>A child process that ends with the given exit status and streams.\<close>

definition child_exits ::
  "int \<Rightarrow> jsstring \<Rightarrow> jsstring \<Rightarrow> jsstring \<Rightarrow> jsstring list \<Rightarrow> jsstring \<Rightarrow> spawn_result" where
  "child_exits n out err = (\<lambda>cmd args inp. \<lparr>status = Some n, stdout = Some out, stderr = Some err\<rparr>)"

text \<open>
  A small world for concrete runs: the state is the list of the paths that exist.
  The remote store answers every request with the status \<open>st\<close> and an empty body;
  every shell command succeeds with output \<open>out\<close> and leaves the message directory
  behind when \<open>cmd_ok\<close> holds, and fails otherwise.
\<close>

definition example_os :: "nat \<Rightarrow> bool \<Rightarrow> jsstring \<Rightarrow> (jsstring list) os" where
  "example_os st cmd_ok out =
     \<lparr>homedir = js ''/root'',
      pathJoin = (\<lambda>a b. a @ js ''/'' @ b),
      existsSync = (\<lambda>p w. p \<in> set w),
      mkdirSync = (\<lambda>p w. (None, p # w)),
      rmSync = (\<lambda>p w. (None, removeAll p w)),
      writeFileSync = (\<lambda>p b w. (None, p # w)),
      readFileSync = (\<lambda>p w. Inr []),
      execSync = (\<lambda>cmd w.
        if cmd_ok then (Inr out, js ''/root/.local/share/opencode/storage/message'' # w)
        else (Inl (js ''Command failed''), w)),
      encodeURIComponent = Inr,
      fetch = (\<lambda>req w.
        (Inr \<lparr>resp_status = st, arrayBuffer = Inr [], text_body = Inr [],
              json_upserted = Inr Null\<rparr>, w))\<rparr>"

text \<open>
  A run in which every collaborator succeeds, the agent exits with status 0, the
  latest session holds three records with the costs 0.25, \<open>null\<close> and 0.5, and the
  telemetry endpoint answers 200. The two costs and their sum 0.75 are doubles, so in
  this run the addition of jq is the exact one and \<open>parseFloat\<close> reads back the number
  that jq prints.
\<close>

definition three_records :: "rat json_file list" where
  "three_records =
     [JsonText (JObj [(js ''cost'', JNum (1 / 4))]),
      JsonText (JObj [(js ''cost'', JNull)]),
      JsonText (JObj [(js ''cost'', JNum (1 / 2))])]"

text \<open>The same session with an unparsable cost, and with a file that is not JSON,
  in the place of the second record.\<close>

definition string_cost_records :: "rat json_file list" where
  "string_cost_records =
     [JsonText (JObj [(js ''cost'', JNum (1 / 4))]),
      JsonText (JObj [(js ''cost'', JStr (js ''abc''))]),
      JsonText (JObj [(js ''cost'', JNum (1 / 2))])]"

definition broken_file_records :: "rat json_file list" where
  "broken_file_records =
     [JsonText (JObj [(js ''cost'', JNum (1 / 4))]),
      NotJson,
      JsonText (JObj [(js ''cost'', JNum (1 / 2))])]"

definition example_env :: "rat run_env" where
  "example_env =
     \<lparr>buildContext = Inr example_context,
      validateConfig = None, gitSetup = None, isInsideGitRepo = True,
      setupLocalRepository = None, ensureBranch = None, validateProviderKeys = True,
      env_spawnSync = child_exits 0 (js ''done'') [],
      cwd_before = js ''/opt/agent/repo'', cwd_after = js ''/opt/agent/repo'',
      startTime = 1000, endTime = 61700,
      env_HOME = Some (js ''/root''), env_USERPROFILE = None,
      latest_session_listing = Inr (js ''ses_1'' @ [newline]),
      session_records = (\<lambda>sessionId. three_records),
      jq_number_add = (+),
      parseFloat_number = Some,
      jq_error = js ''Command failed'',
      telemetry = Inr \<lparr>resp_status = 200, arrayBuffer = Inr [], text_body = Inr [],
                       json_upserted = Inr (Number 1)\<rparr>,
      postComment = None,
      writeOutput = (\<lambda>success. None)\<rparr>"

text \<open>
  The cost that the specification describes: the sum, over the records, of the numeric
  cost field, a missing, \<open>null\<close> or unparsable value counting as 0, that is, being
  left out of the sum. The sum is the one jq forms, from left to right, and the total is
  what \<open>parseFloat(...) || 0\<close> makes of it.
\<close>

fun numeric_cost :: "'n json_file \<Rightarrow> 'n option" where
  "numeric_cost (JsonText (JObj kv)) =
     (case map_of kv (js ''cost'') of Some (JNum n) \<Rightarrow> Some n | _ \<Rightarrow> None)"
| "numeric_cost f = None"

fun numeric_costs :: "'n json_file list \<Rightarrow> 'n list" where
  "numeric_costs [] = []"
| "numeric_costs (f # fs) =
     (case numeric_cost f of None \<Rightarrow> numeric_costs fs | Some n \<Rightarrow> n # numeric_costs fs)"

fun total_of :: "('n \<Rightarrow> 'n \<Rightarrow> 'n) \<Rightarrow> ('n \<Rightarrow> rat option) \<Rightarrow> 'n list \<Rightarrow> rat" where
  "total_of add read [] = 0"
| "total_of add read (x # xs) = or_zero (read (foldl add x xs))"

definition sum_of_costs ::
  "('n \<Rightarrow> 'n \<Rightarrow> 'n) \<Rightarrow> ('n \<Rightarrow> rat option) \<Rightarrow> 'n json_file list \<Rightarrow> rat" where
  "sum_of_costs add read files = total_of add read (numeric_costs files)"

text \<open>A record that jq reads and whose cost it adds without an error: \<open>null\<close>, or a JSON
  object whose cost is missing, \<open>null\<close> or a number.\<close>

fun plain_record :: "'n json_file \<Rightarrow> bool" where
  "plain_record (JsonText (JObj kv)) =
     (case map_of kv (js ''cost'') of None \<Rightarrow> True | Some JNull \<Rightarrow> True | Some (JNum n) \<Rightarrow> True
      | _ \<Rightarrow> False)"
| "plain_record (JsonText JNull) = True"
| "plain_record f = False"

section \<open>Properties of the session identifier\<close>

text \<open>
  C7. \<open>getSessionId\<close> is deterministic: contexts with equal project identifier and
  equal branch get equal identifiers. For a fixed project identifier, two distinct
  branch names always get distinct identifiers.
\<close>

theorem getSessionId_deterministic_branch_injective:
  "(projectId c1 = projectId c2 \<and> branch c1 = branch c2
      \<longrightarrow> getSessionId c1 = getSessionId c2)
   \<and> (projectId c1 = projectId c2 \<and> branch c1 \<noteq> branch c2
      \<longrightarrow> getSessionId c1 \<noteq> getSessionId c2)"
  by (simp add: getSessionId_def)

theorem getSessionId_deterministic_branch_injective_witness:
  "getSessionId \<lparr>projectId = js ''42'', projectPath = [], author = [],
       branch = js ''main'', prompt = [], agentPrompt = [], opencodeModel = [],
       resourceId = [], dataStorageApiUrl = [], dataStorageApiKey = []\<rparr>
   = getSessionId \<lparr>projectId = js ''42'', projectPath = js ''g/p'', author = [],
       branch = js ''main'', prompt = [], agentPrompt = [], opencodeModel = [],
       resourceId = [], dataStorageApiUrl = [], dataStorageApiKey = []\<rparr>
   \<and> getSessionId \<lparr>projectId = js ''42'', projectPath = [], author = [],
       branch = js ''main'', prompt = [], agentPrompt = [], opencodeModel = [],
       resourceId = [], dataStorageApiUrl = [], dataStorageApiKey = []\<rparr>
   \<noteq> getSessionId \<lparr>projectId = js ''42'', projectPath = [], author = [],
       branch = js ''dev'', prompt = [], agentPrompt = [], opencodeModel = [],
       resourceId = [], dataStorageApiUrl = [], dataStorageApiKey = []\<rparr>"
  using getSessionId_deterministic_branch_injective
      [of "\<lparr>projectId = js ''42'', projectPath = [], author = [],
       branch = js ''main'', prompt = [], agentPrompt = [], opencodeModel = [],
       resourceId = [], dataStorageApiUrl = [], dataStorageApiKey = []\<rparr>"
          "\<lparr>projectId = js ''42'', projectPath = js ''g/p'', author = [],
       branch = js ''main'', prompt = [], agentPrompt = [], opencodeModel = [],
       resourceId = [], dataStorageApiUrl = [], dataStorageApiKey = []\<rparr>"]
    getSessionId_deterministic_branch_injective
      [of "\<lparr>projectId = js ''42'', projectPath = [], author = [],
       branch = js ''main'', prompt = [], agentPrompt = [], opencodeModel = [],
       resourceId = [], dataStorageApiUrl = [], dataStorageApiKey = []\<rparr>"
          "\<lparr>projectId = js ''42'', projectPath = [], author = [],
       branch = js ''dev'', prompt = [], agentPrompt = [], opencodeModel = [],
       resourceId = [], dataStorageApiUrl = [], dataStorageApiKey = []\<rparr>"]
  by (simp add: js_def)

text \<open>
  C9. \<open>getSessionId\<close> is not injective across projects: the identifier is the plain
  underscore-joined concatenation of the two attributes, so project \<open>1\<close> with branch
  \<open>2_x\<close> and project \<open>1_2\<close> with branch \<open>x\<close> are distinct (projectId, branch) pairs
  with the same identifier \<open>1_2_x\<close>.
\<close>

theorem getSessionId_collision_across_projects:
  "(projectId (c\<lparr>projectId := js ''1'', branch := js ''2_x''\<rparr>),
      branch (c\<lparr>projectId := js ''1'', branch := js ''2_x''\<rparr>))
   \<noteq> (projectId (c\<lparr>projectId := js ''1_2'', branch := js ''x''\<rparr>),
      branch (c\<lparr>projectId := js ''1_2'', branch := js ''x''\<rparr>))
   \<and> getSessionId (c\<lparr>projectId := js ''1'', branch := js ''2_x''\<rparr>)
     = getSessionId (c\<lparr>projectId := js ''1_2'', branch := js ''x''\<rparr>)
   \<and> getSessionId (c\<lparr>projectId := js ''1'', branch := js ''2_x''\<rparr>) = js ''1_2_x''"
  by (simp add: getSessionId_def js_def)

section \<open>Splitting and joining\<close>

lemma split_on_not_Nil: "split_on sep s \<noteq> []"
  by (induction s) (auto split: list.splits)

section \<open>Validation of the model specifier\<close>

text \<open>
  C3, as the code has it. \<open>runOpencode\<close> destructures the first two components of
  \<open>opencodeModel.split('/')\<close> and tests only those: it fails with the message
  \<open>Invalid OPENCODE_MODEL format: ... Expected format: provider/model\<close>, having
  spawned nothing, exactly when the specifier has no second component or one of the
  first two components is empty. A specifier whose first two components are
  non-empty passes whatever follows them, so every specifier that splits into
  exactly two non-empty components passes, and so does \<open>a/b/c\<close>.
\<close>

theorem runOpencode_model_validation:
  "(\<not> (\<exists>p q rest. split_on slash (opencodeModel c) = p # q # rest \<and> p \<noteq> [] \<and> q \<noteq> [])
      \<longrightarrow> runOpencode sp c pr
            = ([Log LogStart [Str (js ''Running opencode via cli...'')]],
               Inl (invalid_model_message c))
          \<and> \<not> list_ex is_spawn (fst (runOpencode sp c pr)))
   \<and> ((\<exists>p q rest. split_on slash (opencodeModel c) = p # q # rest \<and> p \<noteq> [] \<and> q \<noteq> [])
      \<longrightarrow> list_ex is_spawn (fst (runOpencode sp c pr))
          \<and> snd (runOpencode sp c pr) \<noteq> Inl (invalid_model_message c))
   \<and> (two_nonempty_components (opencodeModel c)
      \<longrightarrow> (\<exists>p q rest. split_on slash (opencodeModel c) = p # q # rest \<and> p \<noteq> [] \<and> q \<noteq> []))"
proof (cases "split_on slash (opencodeModel c)")
  case Nil
  then show ?thesis using split_on_not_Nil by blast
next
  case (Cons p ps)
  note outer = Cons
  show ?thesis
  proof (cases ps)
    case Nil
    with outer show ?thesis
      by (simp add: runOpencode_def Let_def element_def two_nonempty_components_def)
  next
    case (Cons q rest)
    have neq: "js ''opencode CLI failed: '' @ x \<noteq> invalid_model_message c" for x
      by (simp add: invalid_model_message_def js_def)
    from outer Cons neq show ?thesis
      by (auto simp: runOpencode_def Let_def element_def two_nonempty_components_def
          split: list.splits)
  qed
qed

theorem runOpencode_model_validation_witness:
  "\<not> list_ex is_spawn
       (fst (runOpencode (child_exits 0 [] []) (example_context\<lparr>opencodeModel := js ''nomodel''\<rparr>)
              (js ''hi'')))
   \<and> snd (runOpencode (child_exits 0 [] []) (example_context\<lparr>opencodeModel := js ''nomodel''\<rparr>)
            (js ''hi''))
     = Inl (js ''Invalid OPENCODE_MODEL format: nomodel. Expected format: provider/model'')
   \<and> \<not> list_ex is_spawn
       (fst (runOpencode (child_exits 0 [] []) (example_context\<lparr>opencodeModel := js ''/m''\<rparr>)
              (js ''hi'')))
   \<and> list_ex is_spawn
       (fst (runOpencode (child_exits 0 [] []) (example_context\<lparr>opencodeModel := js ''a/b/c''\<rparr>)
              (js ''hi'')))
   \<and> two_nonempty_components (opencodeModel example_context)
   \<and> list_ex is_spawn (fst (runOpencode (child_exits 0 [] []) example_context (js ''hi'')))"
  using runOpencode_model_validation
      [of "example_context\<lparr>opencodeModel := js ''nomodel''\<rparr>" "child_exits 0 [] []" "js ''hi''"]
    runOpencode_model_validation
      [of "example_context\<lparr>opencodeModel := js ''/m''\<rparr>" "child_exits 0 [] []" "js ''hi''"]
    runOpencode_model_validation
      [of "example_context\<lparr>opencodeModel := js ''a/b/c''\<rparr>" "child_exits 0 [] []" "js ''hi''"]
    runOpencode_model_validation
      [of example_context "child_exits 0 [] []" "js ''hi''"]
  by (simp add: two_nonempty_components_def example_context_def js_def slash_def
      invalid_model_message_def)

text \<open>
  C3 as stated fails: \<open>a/b/c\<close> has three components, yet the validation passes, the
  child process is spawned and the call returns normally.
\<close>

theorem model_three_components_counterexample:
  "\<not> two_nonempty_components (js ''a/b/c'')
   \<and> list_ex is_spawn
        (fst (runOpencode (child_exits 0 [] []) (example_context\<lparr>opencodeModel := js ''a/b/c''\<rparr>)
               (js ''hi'')))
   \<and> \<not> isl (snd (runOpencode (child_exits 0 [] [])
                     (example_context\<lparr>opencodeModel := js ''a/b/c''\<rparr>) (js ''hi'')))"
  by (simp add: two_nonempty_components_def runOpencode_def Let_def element_def
      child_exits_def example_context_def js_def slash_def)

section \<open>Exit status of the child process\<close>

text \<open>
  C5. Once the model specifier has passed validation and the child has run: in the
  variant of \<open>runOpencode\<close> that captures the streams, an exit status other than 0
  throws an \<open>Error\<close> whose message is \<open>opencode CLI failed: \<close> followed by
  \<open>result.stderr\<close>, so the failure detail contains the captured standard-error text
  \<open>e\<close>, and the exit status 0 does not throw. The variant that hands the streams to the
  parent throws on the same statuses, but captures nothing: whatever the child wrote
  to standard error, its failure detail is \<open>opencode CLI failed: null\<close>.
\<close>

theorem runOpencode_exit_status:
  assumes "\<exists>p q rest. split_on slash (opencodeModel c) = p # q # rest \<and> p \<noteq> [] \<and> q \<noteq> []"
  shows
  "(status (sp (js ''opencode'') (cliArgs c) (agentPrompt c @ [newline] @ pr)) \<noteq> Some 0
      \<longrightarrow> snd (runOpencode sp c pr)
            = Inl (js ''opencode CLI failed: ''
                   @ template_null (stderr (sp (js ''opencode'') (cliArgs c)
                                              (agentPrompt c @ [newline] @ pr)))))
   \<and> (status (sp (js ''opencode'') (cliArgs c) (agentPrompt c @ [newline] @ pr)) \<noteq> Some 0
       \<and> stderr (sp (js ''opencode'') (cliArgs c) (agentPrompt c @ [newline] @ pr)) = Some e
      \<longrightarrow> (\<exists>msg. snd (runOpencode sp c pr) = Inl msg \<and> sublist e msg))
   \<and> (status (sp (js ''opencode'') (cliArgs c) (agentPrompt c @ [newline] @ pr)) = Some 0
      \<longrightarrow> \<not> isl (snd (runOpencode sp c pr)))
   \<and> (status (sp (js ''opencode'') (cliArgs c) (agentPrompt c @ [newline] @ pr)) \<noteq> Some 0
      \<longrightarrow> snd (runOpencode_inherit sp c pr) = Inl (js ''opencode CLI failed: null''))
   \<and> (status (sp (js ''opencode'') (cliArgs c) (agentPrompt c @ [newline] @ pr)) = Some 0
      \<longrightarrow> snd (runOpencode_inherit sp c pr) = Inr ())"
proof -
  from assms obtain p q rest where
    sp: "split_on slash (opencodeModel c) = p # q # rest" and ne: "p \<noteq> []" "q \<noteq> []"
    by blast
  have s: "sublist e (js ''opencode CLI failed: '' @ e)"
    by (simp add: sublist_append)
  have piped:
    "status (sp (js ''opencode'') (cliArgs c) (agentPrompt c @ [newline] @ pr)) \<noteq> Some 0
       \<longrightarrow> snd (runOpencode sp c pr)
             = Inl (js ''opencode CLI failed: ''
                    @ template_null (stderr (sp (js ''opencode'') (cliArgs c)
                                               (agentPrompt c @ [newline] @ pr))))"
    "status (sp (js ''opencode'') (cliArgs c) (agentPrompt c @ [newline] @ pr)) = Some 0
       \<longrightarrow> \<not> isl (snd (runOpencode sp c pr))"
    using sp ne by (simp_all add: runOpencode_def Let_def element_def)
  have inherit: "snd (runOpencode_inherit sp c pr)
      = (if status (sp (js ''opencode'') (cliArgs c) (agentPrompt c @ [newline] @ pr)) \<noteq> Some 0
         then Inl (js ''opencode CLI failed: null'') else Inr ())"
    using sp ne
    by (simp add: runOpencode_inherit_def not_captured_def Let_def element_def js_def)
  from piped inherit s show ?thesis by auto
qed

theorem runOpencode_exit_status_witness:
  "snd (runOpencode (child_exits 1 (js ''partial'') (js ''boom'')) example_context (js ''hi''))
     = Inl (js ''opencode CLI failed: boom'')
   \<and> \<not> isl (snd (runOpencode (child_exits 0 (js ''done'') []) example_context (js ''hi'')))
   \<and> snd (runOpencode_inherit (child_exits 1 (js ''partial'') (js ''boom'')) example_context
            (js ''hi''))
     = Inl (js ''opencode CLI failed: null'')
   \<and> \<not> includes_str (js ''opencode CLI failed: null'') (js ''boom'')
   \<and> snd (runOpencode_inherit (child_exits 0 (js ''done'') []) example_context (js ''hi''))
     = Inr ()"
proof -
  have v: "\<exists>p q rest. split_on slash (opencodeModel example_context) = p # q # rest
             \<and> p \<noteq> [] \<and> q \<noteq> []"
    by (simp add: example_context_def js_def slash_def)
  have n: "\<not> includes_str (js ''opencode CLI failed: null'') (js ''boom'')"
    by (simp add: js_def)
  show ?thesis
    using runOpencode_exit_status [OF v, of "child_exits 1 (js ''partial'') (js ''boom'')"
        "js ''hi''" "js ''boom''"]
      runOpencode_exit_status [OF v, of "child_exits 0 (js ''done'') []" "js ''hi''" "[]"] n
    by (simp add: child_exits_def js_def)
qed

section \<open>The final response\<close>

text \<open>\<open>split\<close> undoes \<open>join\<close> on lines that hold no separator.\<close>

lemma split_on_no_sep: "sep \<notin> set x \<Longrightarrow> split_on sep x = [x]"
  by (induction x) auto

lemma split_on_append_sep:
  "sep \<notin> set x \<Longrightarrow> split_on sep (x @ sep # r) = x # split_on sep r"
  by (induction x) (auto split: list.splits)

lemma split_on_join:
  "ls \<noteq> [] \<Longrightarrow> \<forall>l\<in>set ls. sep \<notin> set l \<Longrightarrow> split_on sep (join [sep] ls) = ls"
proof (induction "[sep]" ls rule: join.induct)
  case 1
  then show ?case by simp
next
  case (2 x)
  then show ?case by (simp add: split_on_no_sep)
next
  case (3 x y ys)
  then show ?case by (simp add: split_on_append_sep)
qed

text \<open>
  The loop invariant: after visiting the lines from index \<open>n\<close> upwards, the loop ends
  with the accumulator preceded by the last qualifying lines below \<open>n\<close>, as many as
  still fit under the bound of 50.
\<close>

lemma collect_spec:
  "n \<le> length ls \<Longrightarrow> length acc \<le> 50 \<Longrightarrow>
   collect ls n acc =
     drop (length (filter qualifies (take n ls)) - (50 - length acc))
          (filter qualifies (take n ls)) @ acc"
proof (induction n arbitrary: acc)
  case 0
  then show ?case by simp
next
  case (Suc n)
  then have n: "n < length ls" by simp
  have tk: "take (Suc n) ls = take n ls @ [ls ! n]"
    using n by (simp add: take_Suc_conv_app_nth)
  show ?case
  proof (cases "length acc < 50")
    case False
    with Suc.prems show ?thesis by simp
  next
    case True
    show ?thesis
    proof (cases "qualifies (ls ! n)")
      case q: True
      have "collect ls (Suc n) acc = collect ls n (ls ! n # acc)"
        using True q by simp
      also have "\<dots> = drop (length (filter qualifies (take n ls)) - (50 - Suc (length acc)))
          (filter qualifies (take n ls)) @ (ls ! n # acc)"
        using Suc.IH [of "ls ! n # acc"] n True by simp
      finally show ?thesis using True q by (simp add: tk Suc_diff_le)
    next
      case nq: False
      have "collect ls (Suc n) acc = collect ls n acc"
        using True nq by simp
      then show ?thesis using Suc.IH [of acc] n True nq by (simp add: tk)
    qed
  qed
qed

lemma collect_all: "collect ls (length ls) [] = last_qualifying ls"
  using collect_spec [of "length ls" ls "[]"] by (simp add: last_qualifying_def Let_def)

text \<open>A line that starts with a bracket still does after trimming, so it never qualifies.\<close>

lemma trim_bracket:
  assumes "startsWith l (js ''['')"
  shows "startsWith (trim l) (js ''['')"
proof -
  from assms obtain r where l: "l = 0x5B # r"
    by (auto simp: startsWith_def js_def prefix_def)
  have nw: "\<not> isWhiteSpace 0x5B" by (simp add: isWhiteSpace_def)
  have "dropWhile isWhiteSpace (rev r @ [0x5B]) =
          (if \<forall>x\<in>set (rev r). isWhiteSpace x then [0x5B]
           else dropWhile isWhiteSpace (rev r) @ [0x5B])"
    using nw by (simp add: dropWhile_append)
  then obtain t where "dropWhile isWhiteSpace (rev r @ [0x5B]) = t @ [0x5B]"
    by (cases "\<forall>x\<in>set (rev r). isWhiteSpace x") auto
  then show ?thesis using nw l
    by (simp add: trim_def startsWith_def js_def)
qed

lemma bracket_not_qualifies: "startsWith l (js ''['') \<Longrightarrow> \<not> qualifies l"
  using trim_bracket [of l] by (simp add: qualifies_def Let_def)

lemma startsWith_INFO: "startsWith b (js ''[INFO]'') \<Longrightarrow> startsWith b (js ''['')"
  by (auto simp: startsWith_def js_def prefix_def)

text \<open>
  C4, as the code has it. A line qualifies when, after trimming, it is non-empty, does
  not start with \<open>[\<close> and contains neither \<open>Tool:\<close> nor \<open>>>>\<close>. For every
  \<open>fullOutput\<close>, \<open>finalResponse\<close> is the join with \<open>\n\<close>, in original order, of the last
  at most 50 qualifying lines, with leading and trailing white space of the joined
  text removed (\<open>.join('\n').trim()\<close>); when no line qualifies it is the whole
  \<open>fullOutput\<close>, untrimmed. At most 50 lines are selected; when at most 50 lines
  qualify all of them are. When at least 50 qualifying lines \<open>ps\<close> (60, say) are
  followed by lines starting with \<open>[INFO]\<close>, \<open>finalResponse\<close> is the trimmed join of
  the last 50 lines of \<open>ps\<close>.
\<close>

theorem extractFinalResponse_last_qualifying:
  "extractFinalResponse out =
     (if last_qualifying (split_on newline out) = [] then out
      else trim (join [newline] (last_qualifying (split_on newline out))))
   \<and> length (last_qualifying ls) \<le> 50
   \<and> (length (filter qualifies ls) \<le> 50 \<longrightarrow> last_qualifying ls = filter qualifies ls)
   \<and> (filter qualifies ls = [] \<longrightarrow> last_qualifying ls = [])
   \<and> (50 \<le> length ps \<and> (\<forall>l\<in>set (ps @ bs). newline \<notin> set l) \<and> (\<forall>l\<in>set ps. qualifies l)
        \<and> (\<forall>b\<in>set bs. startsWith b (js ''[INFO]''))
      \<longrightarrow> extractFinalResponse (join [newline] (ps @ bs))
            = trim (join [newline] (drop (length ps - 50) ps)))"
proof -
  have main: "extractFinalResponse out =
     (if last_qualifying (split_on newline out) = [] then out
      else trim (join [newline] (last_qualifying (split_on newline out))))" for out
    by (simp add: extractFinalResponse_def Let_def collect_all)
  have len: "length (last_qualifying ls) \<le> 50"
    by (simp add: last_qualifying_def Let_def)
  have few: "length (filter qualifies ls) \<le> 50 \<longrightarrow> last_qualifying ls = filter qualifies ls"
    by (simp add: last_qualifying_def Let_def)
  have none: "filter qualifies ls = [] \<longrightarrow> last_qualifying ls = []"
    by (simp add: last_qualifying_def Let_def)
  have sixty: "extractFinalResponse (join [newline] (ps @ bs))
            = trim (join [newline] (drop (length ps - 50) ps))"
    if n: "50 \<le> length ps" and nl: "\<forall>l\<in>set (ps @ bs). newline \<notin> set l"
      and q: "\<forall>l\<in>set ps. qualifies l" and b: "\<forall>b\<in>set bs. startsWith b (js ''[INFO]'')"
  proof -
    from n have ne: "ps @ bs \<noteq> []" by auto
    have sp: "split_on newline (join [newline] (ps @ bs)) = ps @ bs"
      using split_on_join [OF ne nl] .
    have fb: "filter qualifies bs = []"
      using b by (auto simp: filter_empty_conv dest: startsWith_INFO bracket_not_qualifies)
    have fp: "filter qualifies ps = ps"
      using q by (simp add: filter_id_conv)
    have lq: "last_qualifying (ps @ bs) = drop (length ps - 50) ps"
      by (simp add: last_qualifying_def Let_def fb fp)
    from n have "drop (length ps - 50) ps \<noteq> []" by (cases ps) auto
    then show ?thesis by (simp add: main sp lq)
  qed
  from main len few none sixty show ?thesis by blast
qed

theorem extractFinalResponse_last_qualifying_witness:
  "extractFinalResponse
       (join [newline] (replicate 60 (js ''ok'') @ [js ''[INFO] done'', js ''[INFO] bye'']))
     = trim (join [newline] (replicate 50 (js ''ok'')))
   \<and> last_qualifying [js ''a'', js ''[x'', js '' b''] = [js ''a'', js '' b'']
   \<and> last_qualifying [js ''[x'', js ''Tool: ls'', js ''>>> step'', []] = []
   \<and> extractFinalResponse (js ''[x'') = js ''[x''"
proof -
  have ev: "filter qualifies [js ''a'', js ''[x'', js '' b''] = [js ''a'', js '' b'']"
    "filter qualifies [js ''[x'', js ''Tool: ls'', js ''>>> step'', []] = []"
    "filter qualifies (split_on newline (js ''[x'')) = []"
    by (simp_all add: js_def newline_def qualifies_def trim_def isWhiteSpace_def startsWith_def)
  have h60: "50 \<le> length (replicate 60 (js ''ok''))
      \<and> (\<forall>l\<in>set (replicate 60 (js ''ok'') @ [js ''[INFO] done'', js ''[INFO] bye'']).
            newline \<notin> set l)
      \<and> (\<forall>l\<in>set (replicate 60 (js ''ok'')). qualifies l)
      \<and> (\<forall>b\<in>set [js ''[INFO] done'', js ''[INFO] bye'']. startsWith b (js ''[INFO]''))"
    by (simp add: js_def newline_def qualifies_def trim_def isWhiteSpace_def startsWith_def)
  have a: "extractFinalResponse
       (join [newline] (replicate 60 (js ''ok'') @ [js ''[INFO] done'', js ''[INFO] bye'']))
     = trim (join [newline] (replicate 50 (js ''ok'')))"
    using extractFinalResponse_last_qualifying
      [of "[]" "[]" "replicate 60 (js ''ok'')" "[js ''[INFO] done'', js ''[INFO] bye'']"] h60
    by simp
  have b: "last_qualifying [js ''a'', js ''[x'', js '' b''] = [js ''a'', js '' b'']"
    using extractFinalResponse_last_qualifying
      [of "[]" "[js ''a'', js ''[x'', js '' b'']" "[]" "[]"] ev(1)
    by simp
  have c: "last_qualifying [js ''[x'', js ''Tool: ls'', js ''>>> step'', []] = []"
    using extractFinalResponse_last_qualifying
      [of "[]" "[js ''[x'', js ''Tool: ls'', js ''>>> step'', []]" "[]" "[]"] ev(2)
    by simp
  have d: "extractFinalResponse (js ''[x'') = js ''[x''"
    using extractFinalResponse_last_qualifying
      [of "js ''[x''" "split_on newline (js ''[x'')" "[]" "[]"] ev(3)
    by simp
  from a b c d show ?thesis by blast
qed

text \<open>
  C4 as stated fails: for the output \<open>" a"\<close> the only qualifying line is \<open>" a"\<close>
  itself, whose join is \<open>" a"\<close>, but \<open>finalResponse\<close> is \<open>"a"\<close>.
\<close>

theorem extractFinalResponse_untrimmed_counterexample:
  "last_qualifying (split_on newline (js '' a'')) = [js '' a'']
   \<and> join [newline] (last_qualifying (split_on newline (js '' a''))) = js '' a''
   \<and> extractFinalResponse (js '' a'') = js ''a''
   \<and> extractFinalResponse (js '' a'')
       \<noteq> join [newline] (last_qualifying (split_on newline (js '' a'')))"
  by (simp add: extractFinalResponse_def last_qualifying_def js_def newline_def qualifies_def
      trim_def isWhiteSpace_def startsWith_def)

section \<open>Restoring a session\<close>

text \<open>
  C6. When \<open>archivePath\<close> does not exist, \<open>unzipSession\<close> returns \<open>null\<close>, its only
  effect is the warning \<open>Session zip not found at ...\<close>, and the world is left as it
  was: the state directory is not created and nothing in it is modified.
\<close>

theorem unzipSession_missing_archive:
  assumes "\<not> existsSync os zipPath w"
  shows "unzipSession os zipPath w
           = (None, w, [Log LogWarn [Str (js ''Session zip not found at '' @ zipPath)]])
         \<and> existsSync os (OPENCODE_DIR os) (fst (snd (unzipSession os zipPath w)))
             = existsSync os (OPENCODE_DIR os) w"
  using assms by (simp add: unzipSession_def)

theorem unzipSession_missing_archive_witness:
  "unzipSession (example_os 200 True (js ''ses_1'')) SESSION_ZIP_PATH [js ''/root/notes.txt'']
     = (None, [js ''/root/notes.txt''],
        [Log LogWarn [Str (js ''Session zip not found at /tmp/opencode-session.zip'')]])
   \<and> \<not> existsSync (example_os 200 True (js ''ses_1''))
         (OPENCODE_DIR (example_os 200 True (js ''ses_1'')))
         (fst (snd (unzipSession (example_os 200 True (js ''ses_1'')) SESSION_ZIP_PATH
                      [js ''/root/notes.txt''])))"
proof -
  have h: "\<not> existsSync (example_os 200 True (js ''ses_1'')) SESSION_ZIP_PATH
               [js ''/root/notes.txt'']"
    by (simp add: example_os_def SESSION_ZIP_PATH_def js_def)
  show ?thesis
    using unzipSession_missing_archive [OF h]
    by (simp add: example_os_def SESSION_ZIP_PATH_def OPENCODE_DIR_def js_def)
qed

text \<open>
  C10. After a successful fetch (a 2xx response whose body is read and written to the
  scratch archive), \<open>downloadSession\<close> returns what \<open>unzipSession\<close> returns.
  \<open>unzipSession\<close> returns \<open>null\<close> when the extraction throws, and also when the
  extraction succeeds but leaves no message directory or no conversation unit. So a
  caller observes three kinds of value: a conversation id, \<open>false\<close> (here on a 404),
  and \<open>null\<close> (here once for a failing extraction, once for an archive without
  conversation units).
\<close>

theorem downloadSession_three_outcomes:
  "(encodeURIComponent os (getSessionId c) = Inr enc
      \<and> fetch os (session_request os c GET enc NoBody) w = (Inr resp, w1)
      \<and> ok resp \<and> arrayBuffer resp = Inr buffer
      \<and> writeFileSync os SESSION_ZIP_PATH buffer w1 = (None, w2)
     \<longrightarrow> fst (downloadSession os c w) = of_session_id (fst (unzipSession os SESSION_ZIP_PATH w2)))
   \<and> (existsSync os zp v \<and> existsSync os (OPENCODE_DIR os) v
      \<and> fst (execSync os (unzip_command os zp) v) = Inl msg
     \<longrightarrow> fst (unzipSession os zp v) = None)
   \<and> (existsSync os zp v \<and> existsSync os (OPENCODE_DIR os) v
      \<and> execSync os (unzip_command os zp) v = (Inr out, v')
      \<and> \<not> existsSync os (messagesDir os) v'
     \<longrightarrow> fst (unzipSession os zp v) = None)
   \<and> fst (downloadSession (example_os 200 True (js ''ses_1'' @ [newline])) example_context [])
       = ReturnedString (js ''ses_1'')
   \<and> fst (downloadSession (example_os 404 True (js ''ses_1'' @ [newline])) example_context [])
       = ReturnedFalse
   \<and> fst (downloadSession (example_os 200 False []) example_context []) = ReturnedNull
   \<and> fst (downloadSession (example_os 200 True [newline]) example_context []) = ReturnedNull"
proof -
  have a: "fst (downloadSession os c w) = of_session_id (fst (unzipSession os SESSION_ZIP_PATH w2))"
    if "encodeURIComponent os (getSessionId c) = Inr enc"
      "fetch os (session_request os c GET enc NoBody) w = (Inr resp, w1)"
      "ok resp" "arrayBuffer resp = Inr buffer"
      "writeFileSync os SESSION_ZIP_PATH buffer w1 = (None, w2)"
    using that by (simp add: downloadSession_def Let_def ok_def split: prod.splits)
  have b: "fst (unzipSession os zp v) = None"
    if "existsSync os zp v" "existsSync os (OPENCODE_DIR os) v"
      "fst (execSync os (unzip_command os zp) v) = Inl msg"
    using that by (cases "execSync os (unzip_command os zp) v") (simp add: unzipSession_def Let_def)
  have c: "fst (unzipSession os zp v) = None"
    if "existsSync os zp v" "existsSync os (OPENCODE_DIR os) v"
      "execSync os (unzip_command os zp) v = (Inr out, v')"
      "\<not> existsSync os (messagesDir os) v'"
    using that by (simp add: unzipSession_def getLatestSessionId_def Let_def)
  have d: "fst (downloadSession (example_os 200 True (js ''ses_1'' @ [newline])) example_context [])
       = ReturnedString (js ''ses_1'')"
    by (simp add: downloadSession_def unzipSession_def getLatestSessionId_def example_os_def
        Let_def ok_def session_request_def SESSION_ZIP_PATH_def OPENCODE_DIR_def
        messagesDir_def trim_def isWhiteSpace_def newline_def js_def)
  have e: "fst (downloadSession (example_os 404 True (js ''ses_1'' @ [newline])) example_context [])
       = ReturnedFalse"
    by (simp add: downloadSession_def example_os_def Let_def)
  have f: "fst (downloadSession (example_os 200 False []) example_context []) = ReturnedNull"
    by (simp add: downloadSession_def unzipSession_def getLatestSessionId_def example_os_def
        Let_def ok_def session_request_def SESSION_ZIP_PATH_def OPENCODE_DIR_def
        messagesDir_def trim_def isWhiteSpace_def newline_def js_def)
  have g: "fst (downloadSession (example_os 200 True [newline]) example_context []) = ReturnedNull"
    by (simp add: downloadSession_def unzipSession_def getLatestSessionId_def example_os_def
        Let_def ok_def session_request_def SESSION_ZIP_PATH_def OPENCODE_DIR_def
        messagesDir_def trim_def isWhiteSpace_def newline_def js_def)
  from a b c d e f g show ?thesis by blast
qed

theorem downloadSession_three_outcomes_witness:
  "fst (downloadSession (example_os 200 True [newline]) example_context [])
     = of_session_id (fst (unzipSession (example_os 200 True [newline]) SESSION_ZIP_PATH
                             [SESSION_ZIP_PATH]))
   \<and> fst (unzipSession (example_os 200 False []) SESSION_ZIP_PATH
            [SESSION_ZIP_PATH, js ''/root/.local/share/opencode'']) = None
   \<and> fst (unzipSession ((example_os 200 True [])\<lparr>execSync := (\<lambda>cmd w. (Inr [], w))\<rparr>)
            SESSION_ZIP_PATH [SESSION_ZIP_PATH, js ''/root/.local/share/opencode'']) = None"
proof -
  have h1: "encodeURIComponent (example_os 200 True [newline]) (getSessionId example_context)
              = Inr (getSessionId example_context)
      \<and> fetch (example_os 200 True [newline])
          (session_request (example_os 200 True [newline]) example_context GET
             (getSessionId example_context) NoBody) []
          = (Inr \<lparr>resp_status = 200, arrayBuffer = Inr [], text_body = Inr [],
                  json_upserted = Inr Null\<rparr>, [])
      \<and> ok \<lparr>resp_status = 200, arrayBuffer = Inr [], text_body = Inr [],
              json_upserted = Inr Null\<rparr>
      \<and> arrayBuffer \<lparr>resp_status = 200, arrayBuffer = Inr [], text_body = Inr [],
              json_upserted = Inr Null\<rparr> = Inr []
      \<and> writeFileSync (example_os 200 True [newline]) SESSION_ZIP_PATH [] []
          = (None, [SESSION_ZIP_PATH])"
    by (simp add: example_os_def ok_def)
  have h2: "existsSync (example_os 200 False []) SESSION_ZIP_PATH
              [SESSION_ZIP_PATH, js ''/root/.local/share/opencode'']
      \<and> existsSync (example_os 200 False []) (OPENCODE_DIR (example_os 200 False []))
              [SESSION_ZIP_PATH, js ''/root/.local/share/opencode'']
      \<and> fst (execSync (example_os 200 False [])
                (unzip_command (example_os 200 False []) SESSION_ZIP_PATH)
                [SESSION_ZIP_PATH, js ''/root/.local/share/opencode''])
          = Inl (js ''Command failed'')"
    by (simp add: example_os_def OPENCODE_DIR_def js_def)
  have h3: "existsSync ((example_os 200 True [])\<lparr>execSync := (\<lambda>cmd w. (Inr [], w))\<rparr>)
              SESSION_ZIP_PATH [SESSION_ZIP_PATH, js ''/root/.local/share/opencode'']
      \<and> existsSync ((example_os 200 True [])\<lparr>execSync := (\<lambda>cmd w. (Inr [], w))\<rparr>)
              (OPENCODE_DIR ((example_os 200 True [])\<lparr>execSync := (\<lambda>cmd w. (Inr [], w))\<rparr>))
              [SESSION_ZIP_PATH, js ''/root/.local/share/opencode'']
      \<and> execSync ((example_os 200 True [])\<lparr>execSync := (\<lambda>cmd w. (Inr [], w))\<rparr>)
              (unzip_command ((example_os 200 True [])\<lparr>execSync := (\<lambda>cmd w. (Inr [], w))\<rparr>)
                 SESSION_ZIP_PATH)
              [SESSION_ZIP_PATH, js ''/root/.local/share/opencode'']
          = (Inr [], [SESSION_ZIP_PATH, js ''/root/.local/share/opencode''])
      \<and> \<not> existsSync ((example_os 200 True [])\<lparr>execSync := (\<lambda>cmd w. (Inr [], w))\<rparr>)
              (messagesDir ((example_os 200 True [])\<lparr>execSync := (\<lambda>cmd w. (Inr [], w))\<rparr>))
              [SESSION_ZIP_PATH, js ''/root/.local/share/opencode'']"
    by (simp add: example_os_def OPENCODE_DIR_def messagesDir_def SESSION_ZIP_PATH_def js_def)
  have a: "fst (downloadSession (example_os 200 True [newline]) example_context [])
     = of_session_id (fst (unzipSession (example_os 200 True [newline]) SESSION_ZIP_PATH
                             [SESSION_ZIP_PATH]))"
    using downloadSession_three_outcomes
        [where os = "example_os 200 True [newline]" and c = example_context
           and enc = "getSessionId example_context" and w = "[]"
           and resp = "\<lparr>resp_status = 200, arrayBuffer = Inr [], text_body = Inr [],
              json_upserted = Inr Null\<rparr>" and ?w1.0 = "[]" and buffer = "[]"
           and ?w2.0 = "[SESSION_ZIP_PATH]", THEN conjunct1] h1
    by (rule mp)
  have b: "fst (unzipSession (example_os 200 False []) SESSION_ZIP_PATH
            [SESSION_ZIP_PATH, js ''/root/.local/share/opencode'']) = None"
    using downloadSession_three_outcomes
        [where os = "example_os 200 False []" and zp = SESSION_ZIP_PATH
           and v = "[SESSION_ZIP_PATH, js ''/root/.local/share/opencode'']"
           and msg = "js ''Command failed''", THEN conjunct2, THEN conjunct1] h2
    by (rule mp)
  have c: "fst (unzipSession ((example_os 200 True [])\<lparr>execSync := (\<lambda>cmd w. (Inr [], w))\<rparr>)
            SESSION_ZIP_PATH [SESSION_ZIP_PATH, js ''/root/.local/share/opencode'']) = None"
    using downloadSession_three_outcomes
        [where os = "(example_os 200 True [])\<lparr>execSync := (\<lambda>cmd w. (Inr [], w))\<rparr>"
           and zp = SESSION_ZIP_PATH
           and v = "[SESSION_ZIP_PATH, js ''/root/.local/share/opencode'']"
           and out = "[]" and v' = "[SESSION_ZIP_PATH, js ''/root/.local/share/opencode'']",
         THEN conjunct2, THEN conjunct2, THEN conjunct1] h3
    by (rule mp)
  from a b c show ?thesis by (intro conjI)
qed

section \<open>The orchestrator\<close>

text \<open>Sequencing.\<close>

lemma step_Inl [simp]: "step (t, Inl e) f = (t, Inl e)"
  by (simp add: step_def)

lemma step_Inr [simp]: "step (t, Inr x) f = (t @ fst (f x), snd (f x))"
  by (simp add: step_def)

lemma step_emit [simp]: "step (emit t) f = (t @ fst (f ()), snd (f ()))"
  by (simp add: emit_def)

lemma step_call_None [simp]: "step (call n None) f = (Call n # fst (f ()), snd (f ()))"
  by (simp add: call_def)

lemma step_call_Some [simp]: "step (call n (Some m)) f = ([Call n], Inl m)"
  by (simp add: call_def)

text \<open>Which HTTP requests the parts of \<open>run\<close> make.\<close>

lemma runOpencode_no_request: "\<not> list_ex (is_request m) (fst (runOpencode sp c p))"
  by (simp add: runOpencode_def Let_def)

lemma step_no_request:
  assumes "\<not> list_ex P (fst m)" "\<And>x. \<not> list_ex P (fst (f x))"
  shows "\<not> list_ex P (fst (step m f))"
proof (cases m)
  case (Pair t r)
  with assms show ?thesis by (cases r) auto
qed

text \<open>What the session store leaves in a trace.\<close>

lemma downloadSession_begins:
  "\<exists>e t. snd (snd (downloadSession os c w)) = e # t \<and> begins_download e"
  by (auto simp: downloadSession_def Let_def split: sum.splits prod.splits option.splits)

lemma uploadSession_begins:
  "\<exists>e t. snd (snd (uploadSession os c w)) = e # t \<and> begins_upload e"
  by (auto simp: uploadSession_def zipSession_def Let_def
      split: sum.splits prod.splits option.splits if_splits)

lemma download_request:
  assumes "encodeURIComponent os (getSessionId c) = Inr enc"
  shows "list_ex (is_request GET) (snd (snd (downloadSession os c w)))"
  using assms
  by (auto simp: downloadSession_def Let_def session_request_def
      split: sum.splits prod.splits option.splits)

text \<open>No part of \<open>run\<close> leaves any of it.\<close>

lemma runOpencode_no_session_store:
  "\<not> list_ex session_store_event (fst (runOpencode sp c p))"
  by (simp add: runOpencode_def Let_def session_store_event_def js_def split: option.splits)

lemma sessionCost_no_session_store:
  "\<not> list_ex session_store_event (snd (sessionCost env s))"
  by (simp add: sessionCost_def Let_def session_store_event_def split: sum.splits option.splits)

lemma reportToSupabase_no_session_store:
  "\<not> list_ex session_store_event (reportToSupabase env c cost s)"
  by (simp add: reportToSupabase_def telemetry_request_def session_store_event_def
      split: sum.splits)

lemma handleError_no_session_store:
  "\<not> list_ex session_store_event (fst (handleError env msg))"
  by (simp add: handleError_def session_store_event_def split: option.splits)

lemma try_block_no_session_store:
  "\<not> list_ex session_store_event (fst (try_block env c))"
  unfolding try_block_def
  by (intro step_no_request)
    (simp_all add: call_def emit_def runOpencode_no_session_store sessionCost_no_session_store
      reportToSupabase_no_session_store,
     simp_all add: session_store_event_def no_provider_key_warning_def js_def)

lemma run_no_session_store:
  "\<not> list_ex session_store_event (fst (run env))"
proof (cases "buildContext env")
  case (Inl msg)
  then show ?thesis by (simp add: run_def session_store_event_def js_def)
next
  case (Inr c)
  obtain t r where tb: "try_block env c = (t, r)"
    by (cases "try_block env c")
  have t: "\<not> list_ex session_store_event t"
    using try_block_no_session_store [of env c] tb by simp
  have pre: "\<not> session_store_event (Log LogInfo [Str (js ''AI GitLab Runner Started'')])"
    "\<not> session_store_event (Call (js ''buildContext''))"
    "\<not> session_store_event
         (Log LogInfo [Str (js ''Project: '' @ or_else (projectPath c) (js ''(unknown)''))])"
    "\<not> session_store_event
         (Log LogInfo [Str (js ''Triggered by: @'' @ or_else (author c) (js ''unknown''))])"
    "\<not> session_store_event (Log LogInfo [Str (js ''Branch: '' @ branch c)])"
    by (simp_all add: session_store_event_def js_def)
  show ?thesis
    using Inr tb t pre handleError_no_session_store [of env]
    by (cases r) (simp_all add: run_def)
qed

text \<open>Events in order.\<close>

lemma in_order_weaken:
  "(in_order ps t \<longrightarrow> in_order ps (e # t)) \<and> (in_order (p # ps) t \<longrightarrow> in_order ps t)"
proof (induction t arbitrary: ps e p)
  case Nil
  then show ?case by (cases ps) auto
next
  case (Cons a t)
  have drop: "in_order (q # qs) (a # t) \<longrightarrow> in_order qs (a # t)" for q qs
    using Cons [of qs a q] Cons [of "qs" a q] by (auto split: if_splits)
  have "in_order ps (a # t) \<longrightarrow> in_order ps (e # a # t)"
  proof (cases ps)
    case Nil
    then show ?thesis by simp
  next
    case (Cons q qs)
    with drop [of q qs] show ?thesis by simp
  qed
  with drop [of p ps] show ?case by simp
qed

lemma in_order_prepend: "in_order ps t \<Longrightarrow> in_order ps (x @ t)"
  by (induction x) (use in_order_weaken in auto)

lemma in_order_append:
  "in_order ps a \<Longrightarrow> in_order qs b \<Longrightarrow> in_order (ps @ qs) (a @ b)"
proof (induction a arbitrary: ps)
  case Nil
  then show ?case by (cases ps) auto
next
  case (Cons e a)
  show ?case
  proof (cases ps)
    case Nil
    with Cons.prems in_order_prepend [of qs b "e # a"] show ?thesis by simp
  next
    case (Cons p ps')
    with Cons.prems Cons.IH [of ps'] Cons.IH [of "p # ps'"] show ?thesis
      by (auto split: if_splits)
  qed
qed

lemma runOpencode_spawned:
  "snd (runOpencode sp c p) = Inr r \<Longrightarrow> in_order [is_spawn] (fst (runOpencode sp c p))"
  by (simp add: runOpencode_def Let_def split: if_splits)

text \<open>
  The two ways through the \<open>try\<close> block: a fatal step throws before anything is
  reported, or the agent has run and the block goes on to the cost, the telemetry
  request and the success record.
\<close>

lemma fatal_try_block:
  assumes "fatal_error env c = Some msg"
  shows "snd (try_block env c) = Inl msg
         \<and> \<not> list_ex (is_request POST) (fst (try_block env c))"
proof -
  obtain t r where ro: "runOpencode (env_spawnSync env) c (prompt c) = (t, r)"
    by (cases "runOpencode (env_spawnSync env) c (prompt c)")
  have t: "\<not> list_ex (is_request POST) t"
    using runOpencode_no_request [of POST "env_spawnSync env" c "prompt c"] ro by simp
  show ?thesis
    using assms ro t
    by (cases "validateConfig env"; cases "gitSetup env"; cases "isInsideGitRepo env";
        cases "ensureBranch env"; cases "setupLocalRepository env"; cases r)
      (simp_all add: try_block_def fatal_error_def)
qed

lemma nonfatal_try_block:
  assumes "fatal_error env c = None"
  shows "snd (try_block env c) = (case writeOutput env True of Some m \<Rightarrow> Inl m | None \<Rightarrow> Inr ())
         \<and> in_order [is_spawn, is_request POST, is_output True] (fst (try_block env c))
         \<and> (\<not> validateProviderKeys env
             \<longrightarrow> in_order [is_provider_key_warning, is_spawn, is_request POST, is_output True]
                   (fst (try_block env c)))"
proof -
  obtain t r where ro: "runOpencode (env_spawnSync env) c (prompt c) = (t, r)"
    by (cases "runOpencode (env_spawnSync env) c (prompt c)")
  from assms ro obtain res where r: "r = Inr res"
    by (cases r) (auto simp: fatal_error_def split: option.splits if_splits)
  define p where "p = [Call (js ''validateConfig''), Call (js ''gitSetup''),
      Call (js ''isInsideGitRepo''),
      Call (if isInsideGitRepo env then js ''ensureBranch'' else js ''setupLocalRepository''),
      Log LogInfo [Str (js ''Prompt: '' @ prompt c)], Call (js ''validateProviderKeys'')]"
  define w where "w = (if \<not> validateProviderKeys env
      then [Log LogWarn [Str no_provider_key_warning]] else [])"
  define q where "q = [Log LogInfo [Str (js ''Working directory: '' @ cwd_before env)]]"
  define x where "x = Log LogInfo [Str (js ''Working directory after opencode: '' @ cwd_after env)]
      # snd (sessionCost env (aiTime env))"
  define rep where "rep = reportToSupabase env c (fst (sessionCost env (aiTime env))) (aiTime env)"
  define out where "out = WriteOutput True
         [(js ''prompt'', Str (prompt c)), (js ''branch'', Str (branch c)),
          (js ''cost'', Number (fst (sessionCost env (aiTime env)))),
          (js ''aiTime'', Number (of_int (aiTime env)))]"
  have form: "try_block env c
      = (p @ w @ q @ t @ x @ rep @ [out],
         (case writeOutput env True of Some m \<Rightarrow> Inl m | None \<Rightarrow> Inr ()))"
    using assms ro r
    by (cases "validateConfig env"; cases "gitSetup env"; cases "isInsideGitRepo env";
        cases "ensureBranch env"; cases "setupLocalRepository env")
      (simp_all add: try_block_def fatal_error_def p_def w_def q_def x_def rep_def out_def)
  have sp: "in_order [is_spawn] t"
    using runOpencode_spawned [of "env_spawnSync env" c "prompt c" res] ro r by simp
  have post: "in_order [is_request POST] (x @ rep)"
    using in_order_prepend [of "[is_request POST]" rep x]
    by (simp add: rep_def reportToSupabase_def telemetry_request_def)
  have outp: "in_order [is_output True] [out]"
    by (simp add: out_def)
  have tail: "in_order [is_spawn, is_request POST, is_output True] (t @ (x @ rep) @ [out])"
    using in_order_append [OF sp in_order_append [OF post outp]] by simp
  have a: "in_order [is_spawn, is_request POST, is_output True] (p @ w @ q @ t @ x @ rep @ [out])"
    using in_order_prepend [OF tail, of "p @ w @ q"] by simp
  have b: "in_order [is_provider_key_warning, is_spawn, is_request POST, is_output True]
             (p @ w @ q @ t @ x @ rep @ [out])" if "\<not> validateProviderKeys env"
  proof -
    have "in_order [is_provider_key_warning] w"
      using that by (simp add: w_def is_provider_key_warning_def)
    from in_order_append [OF this in_order_prepend [OF tail, of q]]
    have "in_order [is_provider_key_warning, is_spawn, is_request POST, is_output True]
            (w @ q @ t @ (x @ rep) @ [out])"
      by simp
    from in_order_prepend [OF this, of p] show ?thesis by simp
  qed
  from form a b show ?thesis by simp
qed

lemma run_success_trace:
  assumes "buildContext env = Inr c" "try_block env c = (t, Inr u)" "in_order ps t"
  shows "snd (run env) = Exited 0 \<and> in_order ps (fst (run env))"
proof -
  define t0 where "t0 = [Log LogInfo [Str (js ''AI GitLab Runner Started'')],
      Call (js ''buildContext''),
      Log LogInfo [Str (js ''Project: '' @ or_else (projectPath c) (js ''(unknown)''))],
      Log LogInfo [Str (js ''Triggered by: @'' @ or_else (author c) (js ''unknown''))],
      Log LogInfo [Str (js ''Branch: '' @ branch c)]]"
  have "run env = (t0 @ t, Exited 0)"
    using assms(1,2) by (simp add: run_def t0_def)
  with in_order_prepend [OF assms(3), of t0] show ?thesis by simp
qed

text \<open>
  C1, as the code has it. \<open>run\<close> does not use the session store: its trace holds
  nothing with which a download or an upload begins, and no GET and no PUT request,
  before or after the agent runs. On a successful
  run (exit status 0) the agent is spawned, then the metrics are reported to the
  telemetry endpoint (POST), then the success output record is written.
\<close>

theorem run_session_store_not_used:
  "\<not> list_ex session_store_event (fst (run env))
   \<and> \<not> list_ex (is_request GET) (fst (run env))
   \<and> \<not> list_ex (is_request PUT) (fst (run env))
   \<and> (snd (run env) = Exited 0
        \<longrightarrow> in_order [is_spawn, is_request POST, is_output True] (fst (run env)))"
proof -
  have ord: "in_order [is_spawn, is_request POST, is_output True] (fst (run env))"
    if ex: "snd (run env) = Exited 0"
  proof (cases "buildContext env")
    case (Inl msg)
    with ex show ?thesis by (simp add: run_def)
  next
    case (Inr c)
    obtain t r where tb: "try_block env c = (t, r)"
      by (cases "try_block env c")
    from ex Inr tb have r: "r = Inr ()"
      by (cases r) (auto simp: run_def handleError_def split: option.splits)
    have "fatal_error env c = None"
    proof (cases "fatal_error env c")
      case (Some msg)
      with fatal_try_block [of env c msg] tb r show ?thesis by simp
    qed simp
    from nonfatal_try_block [OF this] tb
    have "in_order [is_spawn, is_request POST, is_output True] t" by simp
    from run_success_trace [OF Inr _ this] tb r show ?thesis by simp
  qed
  have none: "\<not> list_ex session_store_event (fst (run env))"
    by (rule run_no_session_store)
  then have "\<not> list_ex (is_request GET) (fst (run env))"
    "\<not> list_ex (is_request PUT) (fst (run env))"
    by (auto simp: list_ex_iff session_store_event_def)
  with none ord show ?thesis by simp
qed

theorem run_session_store_not_used_witness:
  "snd (run example_env) = Exited 0
   \<and> in_order [is_spawn, is_request POST, is_output True] (fst (run example_env))"
proof -
  have "snd (run example_env) = Exited 0"
    by (simp add: run_def try_block_def example_env_def example_context_def runOpencode_def
        Let_def element_def child_exits_def js_def slash_def)
  with run_session_store_not_used [of example_env] show ?thesis by simp
qed

text \<open>
  C1 as stated fails: in a run where every step succeeds and \<open>run\<close> exits with status 0,
  no download request precedes the spawn of the agent, and no upload request lies
  between the spawn and the telemetry request.
\<close>

theorem run_without_session_store_counterexample:
  "snd (run example_env) = Exited 0
   \<and> \<not> in_order [is_request GET, is_spawn] (fst (run example_env))
   \<and> \<not> in_order [is_spawn, is_request PUT, is_request POST, is_output True]
         (fst (run example_env))"
  by (simp add: run_def try_block_def example_env_def example_context_def runOpencode_def
      Let_def element_def child_exits_def js_def slash_def sessionCost_def
      reportToSupabase_def telemetry_request_def ok_def three_records_def
      jq_cost_total_def)

text \<open>
  C2, as the code has it. A missing provider key is not fatal: \<open>run\<close> logs a warning and
  goes on to invoke the agent. When a fatal step then fails (config validation, git
  setup, branch setup or the agent invocation) and the failure comment and the failure
  record are delivered, \<open>run\<close> exits with status 1, the output record is
  \<open>{error: message}\<close>, and neither a telemetry POST nor a session upload is attempted.
  When no fatal step fails and the success record is written, \<open>run\<close> exits with status 0
  after the warning, the agent, the telemetry POST and the success record, in this
  order.
\<close>

theorem run_missing_provider_key:
  assumes "\<not> validateProviderKeys env" "buildContext env = Inr c"
  shows "(fatal_error env c = Some msg \<and> postComment env = None \<and> writeOutput env False = None
           \<longrightarrow> snd (run env) = Exited 1
               \<and> list_ex is_error_record (fst (run env))
               \<and> list_ex (\<lambda>e. e = WriteOutput False [(js ''error'', Str msg)]) (fst (run env))
               \<and> \<not> list_ex (is_request POST) (fst (run env))
               \<and> \<not> list_ex session_store_event (fst (run env)))
       \<and> (fatal_error env c = None \<and> writeOutput env True = None
           \<longrightarrow> snd (run env) = Exited 0
               \<and> in_order [is_provider_key_warning, is_spawn, is_request POST, is_output True]
                    (fst (run env)))"
proof -
  obtain t r where tb: "try_block env c = (t, r)"
    by (cases "try_block env c")
  have a: "snd (run env) = Exited 1
               \<and> list_ex is_error_record (fst (run env))
               \<and> list_ex (\<lambda>e. e = WriteOutput False [(js ''error'', Str msg)]) (fst (run env))
               \<and> \<not> list_ex (is_request POST) (fst (run env))"
    if "fatal_error env c = Some msg" "postComment env = None" "writeOutput env False = None"
    using fatal_try_block [OF that(1)] that(2,3) assms(2) tb
    by (simp add: run_def handleError_def)
  have b: "snd (run env) = Exited 0
               \<and> in_order [is_provider_key_warning, is_spawn, is_request POST, is_output True]
                    (fst (run env))"
    if "fatal_error env c = None" "writeOutput env True = None"
  proof -
    from nonfatal_try_block [OF that(1)] that(2) assms(1) tb
    have r: "r = Inr ()"
      and o: "in_order [is_provider_key_warning, is_spawn, is_request POST, is_output True] t"
      by simp_all
    from run_success_trace [OF assms(2) _ o] tb r show ?thesis by simp
  qed
  from a b run_no_session_store [of env] show ?thesis by simp
qed

theorem run_missing_provider_key_witness:
  "snd (run (example_env\<lparr>validateProviderKeys := False,
                          env_spawnSync := child_exits 1 [] (js ''no credentials'')\<rparr>))
     = Exited 1
   \<and> list_ex (\<lambda>e. e = WriteOutput False
                       [(js ''error'', Str (js ''opencode CLI failed: no credentials''))])
        (fst (run (example_env\<lparr>validateProviderKeys := False,
                          env_spawnSync := child_exits 1 [] (js ''no credentials'')\<rparr>)))
   \<and> \<not> list_ex (is_request POST)
        (fst (run (example_env\<lparr>validateProviderKeys := False,
                          env_spawnSync := child_exits 1 [] (js ''no credentials'')\<rparr>)))
   \<and> snd (run (example_env\<lparr>validateProviderKeys := False\<rparr>)) = Exited 0
   \<and> in_order [is_provider_key_warning, is_spawn, is_request POST, is_output True]
        (fst (run (example_env\<lparr>validateProviderKeys := False\<rparr>)))"
proof -
  have f: "fatal_error (example_env\<lparr>validateProviderKeys := False,
                          env_spawnSync := child_exits 1 [] (js ''no credentials'')\<rparr>)
             example_context
           = Some (js ''opencode CLI failed: no credentials'')"
    by (simp add: fatal_error_def example_env_def example_context_def runOpencode_def
        Let_def element_def child_exits_def js_def slash_def)
  have n: "fatal_error (example_env\<lparr>validateProviderKeys := False\<rparr>) example_context = None"
    by (simp add: fatal_error_def example_env_def example_context_def runOpencode_def
        Let_def element_def child_exits_def js_def slash_def)
  have h: "\<not> validateProviderKeys (example_env\<lparr>validateProviderKeys := False,
                          env_spawnSync := child_exits 1 [] (js ''no credentials'')\<rparr>)"
    "buildContext (example_env\<lparr>validateProviderKeys := False,
                          env_spawnSync := child_exits 1 [] (js ''no credentials'')\<rparr>)
       = Inr example_context"
    "postComment (example_env\<lparr>validateProviderKeys := False,
                          env_spawnSync := child_exits 1 [] (js ''no credentials'')\<rparr>) = None"
    "writeOutput (example_env\<lparr>validateProviderKeys := False,
                          env_spawnSync := child_exits 1 [] (js ''no credentials'')\<rparr>) False = None"
    "\<not> validateProviderKeys (example_env\<lparr>validateProviderKeys := False\<rparr>)"
    "buildContext (example_env\<lparr>validateProviderKeys := False\<rparr>) = Inr example_context"
    "writeOutput (example_env\<lparr>validateProviderKeys := False\<rparr>) True = None"
    by (simp_all add: example_env_def)
  show ?thesis
    using run_missing_provider_key [OF h(1) h(2),
        of "js ''opencode CLI failed: no credentials''"]
      run_missing_provider_key [OF h(5) h(6), of "[]"]
      f n h(3) h(4) h(7)
    by simp
qed

text \<open>
  C2 as stated fails: with no provider key but an agent that exits with status 0 (its
  credentials being configured otherwise), \<open>run\<close> exits with status 0, makes the
  telemetry request and writes no record with an \<open>error\<close> field.
\<close>

theorem run_missing_provider_key_counterexample:
  "\<not> validateProviderKeys (example_env\<lparr>validateProviderKeys := False\<rparr>)
   \<and> snd (run (example_env\<lparr>validateProviderKeys := False\<rparr>)) = Exited 0
   \<and> list_ex (is_request POST) (fst (run (example_env\<lparr>validateProviderKeys := False\<rparr>)))
   \<and> \<not> list_ex is_error_record (fst (run (example_env\<lparr>validateProviderKeys := False\<rparr>)))"
  by (simp add: run_def try_block_def example_env_def example_context_def runOpencode_def
      Let_def element_def child_exits_def js_def slash_def sessionCost_def
      reportToSupabase_def telemetry_request_def ok_def three_records_def
      jq_cost_total_def)

section \<open>The cost\<close>

text \<open>
  Adding costs that are \<open>null\<close> or numbers never fails: the result is \<open>null\<close> when
  there is no number, and otherwise the numbers added from left to right.
\<close>

lemma jq_reduce_nums:
  "null_or_num acc \<Longrightarrow> list_all null_or_num cs \<Longrightarrow>
   jq_reduce add acc cs
     = Some (case numbers (acc # cs) of [] \<Rightarrow> JNull | x # xs \<Rightarrow> JNum (foldl add x xs))"
proof (induction cs arbitrary: acc)
  case Nil
  then show ?case by (cases acc) auto
next
  case (Cons x xs)
  from Cons.prems obtain a where a: "jq_plus add acc x = Some a" "null_or_num a"
    "(case numbers (a # xs) of [] \<Rightarrow> JNull | y # ys \<Rightarrow> JNum (foldl add y ys))
       = (case numbers (acc # x # xs) of [] \<Rightarrow> JNull | y # ys \<Rightarrow> JNum (foldl add y ys))"
    by (cases acc; cases x) auto
  from Cons.IH [of a] a Cons.prems show ?case by simp
qed

lemma plain_slurp:
  "list_all plain_record files \<Longrightarrow>
   \<exists>vs cs. slurp files = Some vs \<and> map_cost vs = Some cs \<and> list_all null_or_num cs
      \<and> numbers cs = numeric_costs files"
proof (induction files)
  case Nil
  then show ?case by simp
next
  case (Cons f fs)
  then obtain vs cs where ih: "slurp fs = Some vs" "map_cost vs = Some cs"
    "list_all null_or_num cs" "numbers cs = numeric_costs fs"
    by auto
  from Cons.prems have "plain_record f" by simp
  then have "\<exists>v c. f = JsonText v \<and> cost_field v = Some c \<and> null_or_num c
      \<and> numbers (c # cs) = numeric_costs (f # fs)"
    using ih(4)
    by (cases f rule: plain_record.cases) (auto split: option.splits json.splits)
  then obtain v c where "f = JsonText v" "cost_field v = Some c" "null_or_num c"
    "numbers (c # cs) = numeric_costs (f # fs)"
    by blast
  with ih show ?case by simp
qed

lemma cost_of_plain_records:
  assumes "files \<noteq> []" "list_all plain_record files"
  shows "cost_of_files add read files = sum_of_costs add read files"
proof -
  from plain_slurp [OF assms(2)] obtain vs cs where
    s: "slurp files = Some vs" "map_cost vs = Some cs" "list_all null_or_num cs"
    "numbers cs = numeric_costs files"
    by blast
  from jq_reduce_nums [of JNull cs add] s
  have "jq_reduce add JNull cs
      = Some (case numeric_costs files of [] \<Rightarrow> JNull | x # xs \<Rightarrow> JNum (foldl add x xs))"
    by simp
  with assms(1) s show ?thesis
    by (cases "numeric_costs files")
      (simp_all add: cost_of_files_def jq_cost_total_def sum_of_costs_def)
qed

text \<open>
  Conversely, jq ends with a number only if every file was read and every cost was
  \<open>null\<close> or a number.
\<close>

lemma jq_plus_number:
  "jq_plus add acc x = Some a \<Longrightarrow> null_or_num a \<Longrightarrow> null_or_num acc \<and> null_or_num x"
  by (cases acc; cases x) auto

lemma jq_reduce_number:
  "jq_reduce add acc cs = Some v \<Longrightarrow> null_or_num v \<Longrightarrow>
   null_or_num acc \<and> list_all null_or_num cs"
proof (induction cs arbitrary: acc)
  case Nil
  then show ?case by simp
next
  case (Cons x xs)
  from Cons.prems(1) obtain a where a: "jq_plus add acc x = Some a" "jq_reduce add a xs = Some v"
    by (auto split: option.splits)
  from Cons.IH [OF a(2) Cons.prems(2)] have "null_or_num a" "list_all null_or_num xs"
    by simp_all
  with jq_plus_number [OF a(1)] show ?case by simp
qed

lemma slurp_map_cost_plain:
  "slurp files = Some vs \<Longrightarrow> map_cost vs = Some cs \<Longrightarrow> list_all null_or_num cs \<Longrightarrow>
   list_all plain_record files"
proof (induction files arbitrary: vs cs)
  case Nil
  then show ?case by simp
next
  case (Cons f fs)
  from Cons.prems(1) obtain v vs' where f: "f = JsonText v" "slurp fs = Some vs'" "vs = v # vs'"
    by (cases f) (auto split: option.splits)
  from Cons.prems(2) f obtain c cs' where c: "cost_field v = Some c" "map_cost vs' = Some cs'"
    "cs = c # cs'"
    by (auto split: option.splits)
  from Cons.prems(3) c have n: "null_or_num c" "list_all null_or_num cs'" by simp_all
  from c(1) n(1) have "plain_record (JsonText v)"
    by (cases v) (auto split: option.splits json.splits)
  with Cons.IH [OF f(2) c(2) n(2)] f show ?case by simp
qed

lemma cost_of_other_records:
  assumes "\<not> (files \<noteq> [] \<and> list_all plain_record files)"
  shows "cost_of_files add read files = 0"
proof (rule ccontr)
  assume nz: "cost_of_files add read files \<noteq> 0"
  then obtain v where v: "jq_cost_total add files = Some v"
    "or_zero (parseFloat_printed read v) \<noteq> 0"
    by (auto simp: cost_of_files_def split: option.splits)
  from v(2) have num: "null_or_num v" by (cases v) auto
  from v(1) obtain vs cs where s: "files \<noteq> []" "slurp files = Some vs" "map_cost vs = Some cs"
    "jq_reduce add JNull cs = Some v"
    by (auto simp: jq_cost_total_def split: if_splits option.splits)
  from jq_reduce_number [OF s(4) num] have "list_all null_or_num cs" by simp
  from slurp_map_cost_plain [OF s(2) s(3) this] s(1) assms show False by simp
qed

text \<open>The cost that \<open>run\<close> uses, and what it means for how \<open>run\<close> ends.\<close>

lemma sessionCost_total:
  "fst (sessionCost env s) =
     (case latest_session_listing env of
        Inl msg \<Rightarrow> 0
      | Inr out \<Rightarrow>
          cost_of_files (jq_number_add env) (parseFloat_number env)
            (session_records env (trim out)))"
  by (simp add: sessionCost_def cost_of_files_def Let_def split: sum.splits option.splits)

lemma run_outcome_cost_free:
  "snd (run (env\<lparr>latest_session_listing := l, session_records := rs, jq_number_add := ad,
                 parseFloat_number := rd\<rparr>)) = snd (run env)"
proof -
  let ?env = "env\<lparr>latest_session_listing := l, session_records := rs, jq_number_add := ad,
                 parseFloat_number := rd\<rparr>"
  have d: "snd (try_block ?env c) = snd (try_block env c)" for c
    by (cases "validateConfig env"; cases "gitSetup env"; cases "isInsideGitRepo env";
        cases "ensureBranch env"; cases "setupLocalRepository env";
        cases "runOpencode (env_spawnSync env) c (prompt c)";
        cases "snd (runOpencode (env_spawnSync env) c (prompt c))")
      (simp_all add: try_block_def)
  show ?thesis
  proof (cases "buildContext env")
    case (Inl msg)
    then show ?thesis by (simp add: run_def)
  next
    case (Inr c)
    obtain t r where tb: "try_block env c = (t, r)"
      by (cases "try_block env c")
    obtain t' r' where tb': "try_block ?env c = (t', r')"
      by (cases "try_block ?env c")
    from d [of c] tb tb' have "r' = r" by simp
    with Inr tb tb' show ?thesis
      by (cases r) (simp_all add: run_def handleError_def split: option.splits)
  qed
qed

text \<open>
  C8, as the code has it. The cost is computed by one jq run over all the records of
  the latest session, inside one \<open>try\<close>. When there is a record and every record is
  \<open>null\<close> or a JSON object whose cost is missing, \<open>null\<close> or a number, the total is what
  \<open>parseFloat(...) || 0\<close> makes of jq's sum of the numeric costs, a missing or \<open>null\<close>
  cost adding nothing: the costs \<open>a\<close>, \<open>null\<close>, \<open>b\<close> give the sum of \<open>a\<close> and \<open>b\<close>. In
  every other case the total is 0 for the whole session: when a file is not JSON, when
  a record is neither an object nor \<open>null\<close>, when a cost is not \<open>null\<close> and not a
  number (the costs \<open>a\<close>, \<open>"x"\<close>, \<open>b\<close> give 0), when no record is found; and also when the
  latest session cannot be listed. In no case is the run aborted: how \<open>run\<close> ends does
  not depend on the session listing, the records or the arithmetic. All of this holds
  for whatever addition jq performs on its numbers.
\<close>

theorem session_cost_total:
  "(files \<noteq> [] \<and> list_all plain_record files
      \<longrightarrow> cost_of_files add read files = sum_of_costs add read files)
   \<and> (\<not> (files \<noteq> [] \<and> list_all plain_record files) \<longrightarrow> cost_of_files add read files = 0)
   \<and> (NotJson \<in> set files \<longrightarrow> cost_of_files add read files = 0)
   \<and> cost_of_files add read
        [JsonText (JObj [(js ''cost'', JNum a)]), JsonText (JObj [(js ''cost'', JNull)]),
         JsonText (JObj [(js ''cost'', JNum b)])] = or_zero (read (add a b))
   \<and> cost_of_files add read
        [JsonText (JObj [(js ''cost'', JNum a)]), JsonText (JObj [(js ''cost'', JStr x)]),
         JsonText (JObj [(js ''cost'', JNum b)])] = 0
   \<and> fst (sessionCost env s)
       = (case latest_session_listing env of
            Inl msg \<Rightarrow> 0
          | Inr out \<Rightarrow>
              cost_of_files (jq_number_add env) (parseFloat_number env)
                (session_records env (trim out)))
   \<and> snd (run (env\<lparr>latest_session_listing := l, session_records := rs, jq_number_add := ad,
                    parseFloat_number := rd\<rparr>)) = snd (run env)"
proof -
  have nj: "cost_of_files add read files = 0" if "NotJson \<in> set files"
  proof -
    have "\<not> plain_record (NotJson :: 'a json_file)" by simp
    with that have "\<not> list_all plain_record files"
      unfolding list_all_iff by blast
    then show ?thesis using cost_of_other_records [of files add read] by simp
  qed
  have ex: "cost_of_files add read
        [JsonText (JObj [(js ''cost'', JNum a)]), JsonText (JObj [(js ''cost'', JNull)]),
         JsonText (JObj [(js ''cost'', JNum b)])] = or_zero (read (add a b))"
    by (simp add: cost_of_files_def jq_cost_total_def)
  have st: "cost_of_files add read
        [JsonText (JObj [(js ''cost'', JNum a)]), JsonText (JObj [(js ''cost'', JStr x)]),
         JsonText (JObj [(js ''cost'', JNum b)])] = 0"
    by (simp add: cost_of_files_def jq_cost_total_def)
  from cost_of_plain_records [of files add read] cost_of_other_records [of files add read]
    nj ex st sessionCost_total [of env s]
    run_outcome_cost_free [where env = env and l = l and rs = rs and ad = ad and rd = rd]
  show ?thesis by blast
qed

theorem session_cost_total_witness:
  "cost_of_files (+) Some three_records = sum_of_costs (+) Some three_records
   \<and> sum_of_costs (+) Some three_records = 3 / 4
   \<and> cost_of_files (+) Some string_cost_records = 0
   \<and> cost_of_files (+) Some broken_file_records = 0
   \<and> fst (sessionCost example_env 61) = 3 / 4"
proof -
  have h1: "three_records \<noteq> [] \<and> list_all plain_record three_records"
    by (simp add: three_records_def)
  have h2: "\<not> (string_cost_records \<noteq> [] \<and> list_all plain_record string_cost_records)"
    by (simp add: string_cost_records_def)
  have h3: "NotJson \<in> set broken_file_records"
    by (simp add: broken_file_records_def)
  have a: "cost_of_files (+) Some three_records = sum_of_costs (+) Some three_records"
    using session_cost_total [where files = three_records and add = "(+)" and read = Some,
        THEN conjunct1] h1
    by (rule mp)
  have b: "cost_of_files (+) Some string_cost_records = 0"
    using session_cost_total [where files = string_cost_records and add = "(+)" and read = Some,
        THEN conjunct2, THEN conjunct1] h2
    by (rule mp)
  have c: "cost_of_files (+) Some broken_file_records = 0"
    using session_cost_total [where files = broken_file_records and add = "(+)" and read = Some,
        THEN conjunct2, THEN conjunct2, THEN conjunct1] h3
    by (rule mp)
  have d: "sum_of_costs (+) Some three_records = 3 / 4"
    by (simp add: sum_of_costs_def three_records_def)
  have e: "fst (sessionCost example_env 61) = 3 / 4"
    using session_cost_total [where files = three_records and add = "(+)" and read = Some
        and env = example_env and s = 61] a d
    by (simp add: example_env_def)
  from a d b c e show ?thesis by (intro conjI)
qed

text \<open>
  C8 as stated fails: with the costs 0.25, \<open>"abc"\<close>, 0.5 the unparsable value does not
  count as 0 in a sum of 0.75; jq fails on it and the total is 0. The same happens when
  the second of the three records is not JSON.
\<close>

theorem session_cost_total_counterexample:
  "cost_of_files (+) Some string_cost_records = 0
   \<and> sum_of_costs (+) Some string_cost_records = 3 / 4
   \<and> cost_of_files (+) Some broken_file_records = 0
   \<and> sum_of_costs (+) Some broken_file_records = 3 / 4
   \<and> fst (sessionCost (example_env\<lparr>session_records := (\<lambda>sessionId. string_cost_records)\<rparr>) 61)
       = 0"
  by (simp add: cost_of_files_def sum_of_costs_def jq_cost_total_def sessionCost_def
      example_env_def string_cost_records_def broken_file_records_def Let_def)

end
